theory Spec2Isabelle
  imports Complex_Main "HOL-Library.AList"
begin

section \<open>Constants of the simulation\<close>

text \<open>
  The source is a single Python module.  Python floats are idealised as \<^typ>\<open>real\<close>,
  Python integers are \<^typ>\<open>int\<close>, resource kinds and network ids are strings, and a
  dictionary whose iteration order is observable is an association list.
\<close>

definition RES_COPPER :: string where "RES_COPPER = ''copper''"
definition RES_COAL :: string where "RES_COAL = ''coal''"

definition STARTING_COPPER :: int where "STARTING_COPPER = 200"
definition STARTING_COAL :: int where "STARTING_COAL = 100"
definition CORE_HP :: real where "CORE_HP = 1500"
definition DELETE_REFUND_RATIO :: real where "DELETE_REFUND_RATIO = 1 / 2"
definition TILE_SIZE :: real where "TILE_SIZE = 32"
definition PLAYER_SPEED :: real where "PLAYER_SPEED = 5 * TILE_SIZE"
definition PLAYER_BUILD_RADIUS :: real where "PLAYER_BUILD_RADIUS = 8 * TILE_SIZE"

definition ENEMY_START_HP :: int where "ENEMY_START_HP = 50"
definition ENEMY_HP_INCREASE_PER_WAVE :: int where "ENEMY_HP_INCREASE_PER_WAVE = 20"
definition ENEMY_SPEED :: real where "ENEMY_SPEED = 17 / 10 * TILE_SIZE"
definition ENEMY_DAMAGE :: real where "ENEMY_DAMAGE = 20"
definition ENEMY_ATTACK_COOLDOWN :: real where "ENEMY_ATTACK_COOLDOWN = 9 / 10"
definition ENEMY_SPAWN_RATE :: real where "ENEMY_SPAWN_RATE = 3"
definition WAVE_DURATION :: real where "WAVE_DURATION = 40"
definition WAVE_COOLDOWN :: real where "WAVE_COOLDOWN = 30"
definition MAX_WAVES :: int where "MAX_WAVES = 20"

definition MAX_TIER :: int where "MAX_TIER = 3"
definition DRILL_COST :: "(string \<times> int) list" where "DRILL_COST = [(RES_COPPER, 15)]"
definition DRILL_STATS :: "(real \<times> real) list" where
  "DRILL_STATS = [(18 / 10, 100), (14 / 10, 140), (1, 180)]"
definition DRILL_UPGRADE_COST :: "(int \<times> (string \<times> int) list) list" where
  "DRILL_UPGRADE_COST = [(2, [(RES_COPPER, 40)]), (3, [(RES_COPPER, 75), (RES_COAL, 20)])]"
definition DRILL_OUTPUT_COOLDOWN :: real where "DRILL_OUTPUT_COOLDOWN = 1 / 10"
definition CONVEYOR_COST :: "(string \<times> int) list" where "CONVEYOR_COST = [(RES_COPPER, 5)]"
definition CONVEYOR_STATS :: "(real \<times> real \<times> int) list" where
  "CONVEYOR_STATS = [(8 / 10, 50, 1), (55 / 100, 70, 2), (35 / 100, 90, 3)]"
definition CONVEYOR_UPGRADE_COST :: "(int \<times> (string \<times> int) list) list" where
  "CONVEYOR_UPGRADE_COST = [(2, [(RES_COPPER, 15)]), (3, [(RES_COPPER, 30), (RES_COAL, 5)])]"
definition TURRET_COST :: "(string \<times> int) list" where "TURRET_COST = [(RES_COPPER, 30)]"
definition TURRET_STATS :: "(real \<times> real \<times> real \<times> real) list" where
  "TURRET_STATS = [(5 * TILE_SIZE, 30, 45 / 100, 150), (55 / 10 * TILE_SIZE, 40, 40 / 100, 220),
                   (6 * TILE_SIZE, 55, 30 / 100, 300)]"
definition TURRET_UPGRADE_COST :: "(int \<times> (string \<times> int) list) list" where
  "TURRET_UPGRADE_COST = [(2, [(RES_COPPER, 50), (RES_COAL, 20)]), (3, [(RES_COPPER, 80), (RES_COAL, 50)])]"
definition TURRET_AMMO_CAPACITY :: int where "TURRET_AMMO_CAPACITY = 12"
definition TURRET_AMMO_CONSUMPTION :: int where "TURRET_AMMO_CONSUMPTION = 1"
definition PROJECTILE_SPEED :: real where "PROJECTILE_SPEED = 75 / 10 * TILE_SIZE"
definition TURRET_T3_POWER_CONSUMPTION :: real where "TURRET_T3_POWER_CONSUMPTION = 15"
definition WALL_COST :: "(string \<times> int) list" where "WALL_COST = [(RES_COPPER, 10)]"
definition WALL_HP :: real where "WALL_HP = 400"
definition COALGENERATOR_COST :: "(string \<times> int) list" where
  "COALGENERATOR_COST = [(RES_COPPER, 40), (RES_COAL, 25)]"
definition COALGENERATOR_HP :: real where "COALGENERATOR_HP = 200"
definition COALGENERATOR_INPUT_CAP :: int where "COALGENERATOR_INPUT_CAP = 10"
definition COALGENERATOR_CONSUMPTION_RATE :: real where "COALGENERATOR_CONSUMPTION_RATE = 3"
definition COALGENERATOR_POWER_OUTPUT :: real where "COALGENERATOR_POWER_OUTPUT = 30"
definition POWERPOLE_COST :: "(string \<times> int) list" where "POWERPOLE_COST = [(RES_COPPER, 15)]"
definition POWERPOLE_HP :: real where "POWERPOLE_HP = 80"
definition POWER_RADIUS :: real where "POWER_RADIUS = 5 * TILE_SIZE"
definition POWER_SEARCH_DEPTH_LIMIT :: nat where "POWER_SEARCH_DEPTH_LIMIT = 15"
definition BATTERY_COST :: "(string \<times> int) list" where
  "BATTERY_COST = [(RES_COPPER, 50), (RES_COAL, 15)]"
definition BATTERY_HP :: real where "BATTERY_HP = 250"
definition BATTERY_CAPACITY :: int where "BATTERY_CAPACITY = 3000"
definition BATTERY_CHARGE_RATE :: real where "BATTERY_CHARGE_RATE = 40"
definition BATTERY_DISCHARGE_RATE :: real where "BATTERY_DISCHARGE_RATE = 40"
definition RECONSTRUCTOR_COST :: "(string \<times> int) list" where
  "RECONSTRUCTOR_COST = [(RES_COPPER, 70), (RES_COAL, 40)]"
definition RECONSTRUCTOR_HP :: real where "RECONSTRUCTOR_HP = 300"
definition RECONSTRUCTOR_POWER_CONSUMPTION :: real where "RECONSTRUCTOR_POWER_CONSUMPTION = 10"
definition RECONSTRUCTOR_REPAIR_RATE :: real where "RECONSTRUCTOR_REPAIR_RATE = 8"
definition RECONSTRUCTOR_REPAIR_RADIUS :: real where "RECONSTRUCTOR_REPAIR_RADIUS = 25 / 10 * TILE_SIZE"

text \<open>The building-type enumeration \<^verbatim>\<open>BUILDING_NONE, ..., BUILDING_RECONSTRUCTOR = range(11)\<close>.\<close>

datatype btype = BUILDING_NONE | BUILDING_DRILL | BUILDING_CONVEYOR | BUILDING_TURRET
  | BUILDING_WALL | BUILDING_COALGENERATOR | BUILDING_POWERPOLE | BUILDING_CORE
  | BUILDING_RESOURCE | BUILDING_BATTERY | BUILDING_RECONSTRUCTOR

fun btype_num :: "btype \<Rightarrow> int" where
  "btype_num BUILDING_NONE = 0"
| "btype_num BUILDING_DRILL = 1"
| "btype_num BUILDING_CONVEYOR = 2"
| "btype_num BUILDING_TURRET = 3"
| "btype_num BUILDING_WALL = 4"
| "btype_num BUILDING_COALGENERATOR = 5"
| "btype_num BUILDING_POWERPOLE = 6"
| "btype_num BUILDING_CORE = 7"
| "btype_num BUILDING_RESOURCE = 8"
| "btype_num BUILDING_BATTERY = 9"
| "btype_num BUILDING_RECONSTRUCTOR = 10"

definition EAST :: int where "EAST = 1"

text \<open>\<^verbatim>\<open>ORIENTATIONS = [(0, -1), (1, 0), (0, 1), (-1, 0)]\<close>\<close>

definition ORIENTATIONS :: "(int \<times> int) list" where
  "ORIENTATIONS = [(0, -1), (1, 0), (0, 1), (-1, 0)]"

section \<open>Helper functions\<close>

definition grid_to_world :: "int \<Rightarrow> int \<Rightarrow> real \<times> real" where
  "grid_to_world gx gy = (real_of_int gx * TILE_SIZE, real_of_int gy * TILE_SIZE)"

definition grid_to_world_center :: "int \<Rightarrow> int \<Rightarrow> real \<times> real" where
  "grid_to_world_center gx gy =
     ((real_of_int gx + 1 / 2) * TILE_SIZE, (real_of_int gy + 1 / 2) * TILE_SIZE)"

definition distance_sq :: "real \<Rightarrow> real \<Rightarrow> real \<Rightarrow> real \<Rightarrow> real" where
  "distance_sq x1 y1 x2 y2 = (let dx = x1 - x2; dy = y1 - y2 in dx * dx + dy * dy)"

text \<open>Python's \<^verbatim>\<open>str\<close> of an integer, used by the f-strings that build network ids.\<close>

definition digit_char :: "nat \<Rightarrow> char" where
  "digit_char d = (''0123456789'' ! d)"

function str_nat :: "nat \<Rightarrow> string" where
  "str_nat n = (if n < 10 then [digit_char n] else str_nat (n div 10) @ [digit_char (n mod 10)])"
  by pat_completeness auto
termination
  by (relation "measure id") auto

declare str_nat.simps [simp del]

definition str_int :: "int \<Rightarrow> string" where
  "str_int i = (if i < 0 then CHR ''-'' # str_nat (nat (- i)) else str_nat (nat i))"

section \<open>Structures\<close>

text \<open>
  One record for the class \<^verbatim>\<open>Structure\<close> and its subclasses.  The class of an object is
  its \<open>building_type\<close> (each subclass passes its own constant to \<^verbatim>\<open>Structure.__init__\<close>).
  Attributes that only a subclass has are present in every record; a constructor of another
  class leaves them at a neutral value and no method of that class reads them.  The
  attributes \<^verbatim>\<open>cost\<close>, \<^verbatim>\<open>max_tier\<close> and \<^verbatim>\<open>upgrade_cost\<close> are assigned once in the
  constructors from module constants and never again, so they are functions of the class.
  \<^verbatim>\<open>world_x\<close>, \<^verbatim>\<open>center_x\<close> and their \<open>y\<close> twins are likewise fixed by the constructor
  from the grid position.
\<close>

record struct =
  grid_x :: int
  grid_y :: int
  max_hp :: real
  hp :: real
  building_type :: btype
  destroyed :: bool
  is_power_node :: bool
  is_power_source :: bool
  is_power_storage :: bool
  is_power_consumer :: bool
  power_consumption :: real
  is_on_grid :: bool
  is_powered :: bool
  power_source_coords :: "(real \<times> real) option"
  connected_nodes_coords :: "(real \<times> real) list"
  tier :: int
  network_id :: string
  resource_type :: string
  mining_timer :: real
  output_timer :: real
  resource_held_count :: int
  resource_type_held :: "string option"
  is_on_patch :: bool
  speed :: real
  orientation :: int
  item_progress :: real
  item_type :: "string option"
  item_count :: int
  transfer_time :: real
  capacity :: int
  fire_timer :: real
  ammo :: int
  target_id :: "string option"
  angle :: real
  range_px :: real
  range_sq :: real
  damage :: real
  fire_rate :: real
  coal_buffer :: int
  consume_timer :: real
  charge :: real
  charge_rate :: real
  discharge_rate :: real
  is_charging :: bool
  is_discharging :: bool
  repair_timer :: real
  repair_radius_sq :: real

definition center_x :: "struct \<Rightarrow> real" where
  "center_x s = fst (grid_to_world_center (grid_x s) (grid_y s))"

definition center_y :: "struct \<Rightarrow> real" where
  "center_y s = snd (grid_to_world_center (grid_x s) (grid_y s))"

fun cost :: "btype \<Rightarrow> (string \<times> int) list" where
  "cost BUILDING_DRILL = DRILL_COST"
| "cost BUILDING_CONVEYOR = CONVEYOR_COST"
| "cost BUILDING_TURRET = TURRET_COST"
| "cost BUILDING_WALL = WALL_COST"
| "cost BUILDING_COALGENERATOR = COALGENERATOR_COST"
| "cost BUILDING_POWERPOLE = POWERPOLE_COST"
| "cost BUILDING_BATTERY = BATTERY_COST"
| "cost BUILDING_RECONSTRUCTOR = RECONSTRUCTOR_COST"
| "cost _ = []"

fun max_tier :: "btype \<Rightarrow> int" where
  "max_tier BUILDING_DRILL = MAX_TIER"
| "max_tier BUILDING_CONVEYOR = MAX_TIER"
| "max_tier BUILDING_TURRET = MAX_TIER"
| "max_tier _ = 1"

fun upgrade_cost :: "btype \<Rightarrow> (int \<times> (string \<times> int) list) list" where
  "upgrade_cost BUILDING_DRILL = DRILL_UPGRADE_COST"
| "upgrade_cost BUILDING_CONVEYOR = CONVEYOR_UPGRADE_COST"
| "upgrade_cost BUILDING_TURRET = TURRET_UPGRADE_COST"
| "upgrade_cost _ = []"

text \<open>\<^verbatim>\<open>Structure.__init__(gx, gy, hp, cost_dict, color, b_type)\<close>\<close>

definition Structure_init :: "int \<Rightarrow> int \<Rightarrow> real \<Rightarrow> btype \<Rightarrow> struct" where
  "Structure_init gx gy hp0 b_type =
     \<lparr> grid_x = gx, grid_y = gy, max_hp = hp0, hp = hp0, building_type = b_type,
       destroyed = False, is_power_node = False, is_power_source = False,
       is_power_storage = False, is_power_consumer = False, power_consumption = 0,
       is_on_grid = False, is_powered = False, power_source_coords = None,
       connected_nodes_coords = [], tier = 1,
       network_id = str_int gx @ ''_'' @ str_int gy @ ''_'' @ str_int (btype_num b_type),
       resource_type = [], mining_timer = 0, output_timer = 0, resource_held_count = 0,
       resource_type_held = None, is_on_patch = False, speed = 0, orientation = 0,
       item_progress = 0, item_type = None, item_count = 0, transfer_time = 0, capacity = 0,
       fire_timer = 0, ammo = 0, target_id = None, angle = 0, range_px = 0, range_sq = 0,
       damage = 0, fire_rate = 0, coal_buffer = 0, consume_timer = 0, charge = 0,
       charge_rate = 0, discharge_rate = 0, is_charging = False, is_discharging = False,
       repair_timer = 0, repair_radius_sq = 0 \<rparr>"

text \<open>
  \<^verbatim>\<open>update_stats\<close> exists on \<^verbatim>\<open>Drill\<close>, \<^verbatim>\<open>Conveyor\<close> and \<^verbatim>\<open>Turret\<close> only; an index
  into a stats table is guarded by \<^verbatim>\<open>0 <= self.tier - 1 < len(TABLE)\<close>, otherwise a warning
  is printed and the stats stay.
\<close>

definition has_update_stats :: "struct \<Rightarrow> bool" where
  "has_update_stats s = (building_type s \<in> {BUILDING_DRILL, BUILDING_CONVEYOR, BUILDING_TURRET})"

definition Drill_update_stats :: "struct \<Rightarrow> struct" where
  "Drill_update_stats s =
     (if 0 \<le> tier s - 1 \<and> tier s - 1 < int (length DRILL_STATS)
      then (let stats = DRILL_STATS ! nat (tier s - 1)
            in s\<lparr>speed := fst stats, max_hp := snd stats\<rparr>)
      else s)"

definition Conveyor_update_stats :: "struct \<Rightarrow> struct" where
  "Conveyor_update_stats s =
     (let s1 = (if 0 \<le> tier s - 1 \<and> tier s - 1 < int (length CONVEYOR_STATS)
                then (let stats = CONVEYOR_STATS ! nat (tier s - 1)
                      in s\<lparr>transfer_time := fst stats, max_hp := fst (snd stats),
                           capacity := snd (snd stats)\<rparr>)
                else s);
          s2 = s1\<lparr>item_count := min (item_count s1) (capacity s1)\<rparr>
      in if item_count s2 = 0 then s2\<lparr>item_type := None\<rparr> else s2)"

definition Turret_update_stats :: "struct \<Rightarrow> struct" where
  "Turret_update_stats s =
     (let s1 = (if 0 \<le> tier s - 1 \<and> tier s - 1 < int (length TURRET_STATS)
                then (let stats = TURRET_STATS ! nat (tier s - 1)
                      in s\<lparr>range_px := fst stats, damage := fst (snd stats),
                           fire_rate := fst (snd (snd stats)), max_hp := snd (snd (snd stats)),
                           range_sq := fst stats * fst stats, ammo := 0\<rparr>)
                else s)
      in if tier s1 = 3
         then s1\<lparr>is_power_consumer := True, power_consumption := TURRET_T3_POWER_CONSUMPTION\<rparr>
         else s1\<lparr>is_power_consumer := False, power_consumption := 0, is_powered := False\<rparr>)"

definition update_stats :: "struct \<Rightarrow> struct" where
  "update_stats s =
     (if building_type s = BUILDING_DRILL then Drill_update_stats s
      else if building_type s = BUILDING_CONVEYOR then Conveyor_update_stats s
      else if building_type s = BUILDING_TURRET then Turret_update_stats s
      else s)"

text \<open>The constructors of the subclasses.  \<^verbatim>\<open>Turret.__init__\<close> draws its first
  \<^verbatim>\<open>fire_timer\<close> with \<^verbatim>\<open>random.uniform\<close>; the drawn value is the argument \<open>r\<close>.\<close>

definition Core_init :: "int \<Rightarrow> int \<Rightarrow> struct" where
  "Core_init gx gy = Structure_init gx gy CORE_HP BUILDING_CORE"

definition ResourcePatch_init :: "int \<Rightarrow> int \<Rightarrow> string \<Rightarrow> struct" where
  "ResourcePatch_init gx gy rt =
     (Structure_init gx gy 99999 BUILDING_RESOURCE)
       \<lparr>resource_type := rt, network_id := ''res_'' @ str_int gx @ ''_'' @ str_int gy\<rparr>"

definition Drill_init :: "int \<Rightarrow> int \<Rightarrow> struct" where
  "Drill_init gx gy =
     Drill_update_stats ((Structure_init gx gy (snd (DRILL_STATS ! 0)) BUILDING_DRILL)
       \<lparr>mining_timer := 0, output_timer := 0, resource_held_count := 0,
        resource_type_held := None, is_on_patch := False, speed := fst (DRILL_STATS ! 0)\<rparr>)"

definition Conveyor_init :: "int \<Rightarrow> int \<Rightarrow> int \<Rightarrow> struct" where
  "Conveyor_init gx gy orient =
     Conveyor_update_stats ((Structure_init gx gy (fst (snd (CONVEYOR_STATS ! 0))) BUILDING_CONVEYOR)
       \<lparr>orientation := orient, item_progress := 0, item_type := None, item_count := 0,
        transfer_time := fst (CONVEYOR_STATS ! 0),
        capacity := snd (snd (CONVEYOR_STATS ! 0))\<rparr>)"

definition Turret_init :: "int \<Rightarrow> int \<Rightarrow> real \<Rightarrow> struct" where
  "Turret_init gx gy r =
     Turret_update_stats ((Structure_init gx gy (snd (snd (snd (TURRET_STATS ! 0)))) BUILDING_TURRET)
       \<lparr>fire_timer := r, ammo := 0, capacity := TURRET_AMMO_CAPACITY,
        target_id := None, angle := 0, range_px := fst (TURRET_STATS ! 0),
        range_sq := fst (TURRET_STATS ! 0) * fst (TURRET_STATS ! 0),
        damage := fst (snd (TURRET_STATS ! 0)), fire_rate := fst (snd (snd (TURRET_STATS ! 0)))\<rparr>)"

definition Wall_init :: "int \<Rightarrow> int \<Rightarrow> struct" where
  "Wall_init gx gy = Structure_init gx gy WALL_HP BUILDING_WALL"

definition CoalGenerator_init :: "int \<Rightarrow> int \<Rightarrow> struct" where
  "CoalGenerator_init gx gy =
     (Structure_init gx gy COALGENERATOR_HP BUILDING_COALGENERATOR)
       \<lparr>coal_buffer := 0, consume_timer := 0, is_power_node := True\<rparr>"

definition PowerPole_init :: "int \<Rightarrow> int \<Rightarrow> struct" where
  "PowerPole_init gx gy = (Structure_init gx gy POWERPOLE_HP BUILDING_POWERPOLE)\<lparr>is_power_node := True\<rparr>"

definition Battery_init :: "int \<Rightarrow> int \<Rightarrow> struct" where
  "Battery_init gx gy =
     (Structure_init gx gy BATTERY_HP BUILDING_BATTERY)
       \<lparr>is_power_node := True, is_power_storage := True, charge := 0,
        capacity := BATTERY_CAPACITY, charge_rate := BATTERY_CHARGE_RATE,
        discharge_rate := BATTERY_DISCHARGE_RATE, is_charging := False, is_discharging := False\<rparr>"

definition Reconstructor_init :: "int \<Rightarrow> int \<Rightarrow> struct" where
  "Reconstructor_init gx gy =
     (Structure_init gx gy RECONSTRUCTOR_HP BUILDING_RECONSTRUCTOR)
       \<lparr>is_power_consumer := True, power_consumption := RECONSTRUCTOR_POWER_CONSUMPTION,
        repair_timer := 0,
        repair_radius_sq := RECONSTRUCTOR_REPAIR_RADIUS * RECONSTRUCTOR_REPAIR_RADIUS\<rparr>"

text \<open>\<^verbatim>\<open>Structure.can_upgrade\<close>, \<^verbatim>\<open>get_next_upgrade_cost\<close> and \<^verbatim>\<open>apply_upgrade\<close>.
  Every structure has the attributes \<^verbatim>\<open>upgrade_cost\<close> and \<^verbatim>\<open>max_hp\<close>, so the two
  \<^verbatim>\<open>hasattr\<close> tests on them are true.\<close>

definition can_upgrade :: "struct \<Rightarrow> bool" where
  "can_upgrade s =
     (let more_tiers = (tier s < max_tier (building_type s));
          next_cost_exists = (if more_tiers
             then map_of (upgrade_cost (building_type s)) (tier s + 1) \<noteq> None else False)
      in more_tiers \<and> next_cost_exists)"

definition get_next_upgrade_cost :: "struct \<Rightarrow> (string \<times> int) list option" where
  "get_next_upgrade_cost s =
     (if can_upgrade s then map_of (upgrade_cost (building_type s)) (tier s + 1) else None)"

definition apply_upgrade :: "struct \<Rightarrow> bool \<times> struct" where
  "apply_upgrade s =
     (if \<not> can_upgrade s then (False, s)
      else let hp_ratio = (if max_hp s > 0 then hp s / max_hp s else 1);
               s1 = s\<lparr>tier := tier s + 1\<rparr>;
               s2 = (if has_update_stats s1 then update_stats s1 else s1);
               s3 = s2\<lparr>hp := min (max_hp s2) (max_hp s2 * hp_ratio)\<rparr>;
               s4 = (if max_hp s3 > 0 \<and> hp s3 < 1 then s3\<lparr>hp := 1\<rparr> else s3)
           in (True, s4))"

section \<open>The world\<close>

text \<open>
  \<^verbatim>\<open>network_mode\<close> is one of the strings \<^verbatim>\<open>"sp"\<close>, \<^verbatim>\<open>"host"\<close>, \<^verbatim>\<open>"client"\<close>.
  An exception that leaves a method is a value \<open>Inl e\<close> of the result.
\<close>

datatype mode = Sp | Host | Client

datatype py_error = KeyError | IndexError

record player =
  player_id :: int
  pl_world_x :: real
  pl_world_y :: real
  pl_speed :: real
  move_x :: real
  move_y :: real
  pl_name :: string
  color_index :: int

record enemy =
  en_network_id :: string
  en_world_x :: real
  en_world_y :: real
  target_core_coords :: "real \<times> real"
  current_attack_target_id :: "string option"
  en_max_hp :: real
  en_hp :: real
  en_speed :: real
  en_damage :: real
  attack_cooldown :: real
  attack_timer :: real
  en_destroyed :: bool

record projectile =
  pr_network_id :: string
  pr_world_x :: real
  pr_world_y :: real
  target_enemy_id :: "string option"
  pr_speed :: real
  pr_damage :: real
  pr_destroyed :: bool
  lifetime :: real
  vx :: real
  vy :: real

text \<open>
  Structure objects are shared between \<^verbatim>\<open>self.grid\<close>, \<^verbatim>\<open>self.structures\<close>, \<^verbatim>\<open>self.core\<close>
  and the two power lists, and are mutated in place, so they live in a store: \<open>objs\<close>
  maps a reference to the object's current fields, \<open>next_ref\<close> is the next unused
  reference, and the containers hold references.  \<^verbatim>\<open>==\<close> and \<^verbatim>\<open>in\<close> on structures are
  object identity (no \<^verbatim>\<open>__eq__\<close> is defined), that is equality of references.
  \<open>grid (gx, gy)\<close> is \<^verbatim>\<open>self.grid[gx][gy]\<close>; it is read and written inside the bounds only.
\<close>

record game =
  grid_width :: int
  grid_height :: int
  map_width_px :: real
  map_height_px :: real
  network_mode :: mode
  running :: bool
  resources :: "string \<rightharpoonup> int"
  wave_number :: int
  wave_timer :: real
  in_wave :: bool
  game_over :: bool
  game_won :: bool
  objs :: "nat \<Rightarrow> struct"
  next_ref :: nat
  grid :: "int \<times> int \<Rightarrow> nat option"
  structures :: "(string \<times> nat) list"
  enemies :: "(string \<times> enemy) list"
  projectiles :: "(string \<times> projectile) list"
  players :: "(int \<times> player) list"
  core :: "nat option"
  base_terrain :: "int \<times> int \<rightharpoonup> string"
  power_nodes :: "nat list"
  power_consumers :: "nat list"
  power_grid_update_timer :: real
  power_grid_update_interval :: real
  dt :: real
  enemies_to_spawn_this_wave :: int
  enemies_spawned_this_wave :: int
  enemy_spawn_timer :: real
  current_enemy_hp :: int
  max_waves :: int
  next_enemy_id :: int
  next_projectile_id :: int

definition new_object :: "game \<Rightarrow> struct \<Rightarrow> nat \<times> game" where
  "new_object g s = (next_ref g, g\<lparr>objs := (objs g)(next_ref g := s), next_ref := next_ref g + 1\<rparr>)"

definition in_bounds :: "game \<Rightarrow> int \<Rightarrow> int \<Rightarrow> bool" where
  "in_bounds g gx gy = (0 \<le> gx \<and> gx < grid_width g \<and> 0 \<le> gy \<and> gy < grid_height g)"

definition get_structure_at :: "game \<Rightarrow> int \<Rightarrow> int \<Rightarrow> nat option" where
  "get_structure_at g gx gy = (if in_bounds g gx gy then grid g (gx, gy) else None)"

definition get_structure_by_id :: "game \<Rightarrow> string \<Rightarrow> nat option" where
  "get_structure_by_id g nid = map_of (structures g) nid"

definition update_power_lists_add :: "game \<Rightarrow> nat \<Rightarrow> game" where
  "update_power_lists_add g a =
     (if network_mode g = Client then g
      else let g1 = (if is_power_node (objs g a) \<and> a \<notin> set (power_nodes g)
                     then g\<lparr>power_nodes := power_nodes g @ [a]\<rparr> else g)
           in if is_power_consumer (objs g1 a) \<and> a \<notin> set (power_consumers g1)
              then g1\<lparr>power_consumers := power_consumers g1 @ [a]\<rparr> else g1)"

definition update_power_lists_remove :: "game \<Rightarrow> nat \<Rightarrow> game" where
  "update_power_lists_remove g a =
     (if network_mode g = Client then g
      else let g1 = (if is_power_node (objs g a) \<and> a \<in> set (power_nodes g)
                     then g\<lparr>power_nodes := remove1 a (power_nodes g)\<rparr> else g)
           in if is_power_consumer (objs g1 a) \<and> a \<in> set (power_consumers g1)
              then g1\<lparr>power_consumers := remove1 a (power_consumers g1)\<rparr> else g1)"

text \<open>\<^verbatim>\<open>Game._remove_structure_from_game\<close>.  \<^verbatim>\<open>if base_type:\<close> is false for a missing key
  and for the empty string.\<close>

definition remove_structure_from_game :: "game \<Rightarrow> nat \<Rightarrow> game" where
  "remove_structure_from_game g a =
     (let gx = grid_x (objs g a); gy = grid_y (objs g a); removed_id = network_id (objs g a);
          g1 = (if map_of (structures g) removed_id \<noteq> None
                then g\<lparr>structures := AList.delete removed_id (structures g)\<rparr> else g);
          g2 = (if network_mode g1 \<noteq> Client then update_power_lists_remove g1 a else g1)
      in if in_bounds g2 gx gy \<and> grid g2 (gx, gy) = Some a
         then (case base_terrain g2 (gx, gy) of
                 None \<Rightarrow> g2\<lparr>grid := (grid g2)((gx, gy) := None)\<rparr>
               | Some base_type \<Rightarrow>
                   if base_type \<noteq> []
                   then (let (p, g3) = new_object g2 (ResourcePatch_init gx gy base_type)
                         in g3\<lparr>grid := (grid g3)((gx, gy) := Some p)\<rparr>)
                   else g2\<lparr>grid := (grid g2)((gx, gy) := None)\<rparr>)
         else g2)"

text \<open>\<^verbatim>\<open>Drill.setup_on_patch\<close>\<close>

definition setup_on_patch :: "game \<Rightarrow> nat \<Rightarrow> game" where
  "setup_on_patch g a =
     (let s = objs g a
      in case base_terrain g (grid_x s, grid_y s) of
           None \<Rightarrow> g\<lparr>objs := (objs g)(a := s\<lparr>is_on_patch := False\<rparr>)\<rparr>
         | Some patch_type \<Rightarrow>
             if patch_type \<in> {RES_COPPER, RES_COAL}
             then g\<lparr>objs := (objs g)(a := s\<lparr>resource_type_held := Some patch_type, is_on_patch := True\<rparr>)\<rparr>
             else g\<lparr>objs := (objs g)(a := s\<lparr>is_on_patch := False\<rparr>)\<rparr>)"

text \<open>\<^verbatim>\<open>Game._add_structure_to_game\<close>; \<^verbatim>\<open>isinstance(x, Drill)\<close> is \<open>building_type x = BUILDING_DRILL\<close>.\<close>

definition add_structure_to_game :: "game \<Rightarrow> nat \<Rightarrow> bool \<times> game" where
  "add_structure_to_game g a =
     (let gx = grid_x (objs g a); gy = grid_y (objs g a)
      in if \<not> in_bounds g gx gy then (False, g)
         else let existing_on_grid = grid g (gx, gy);
                  is_drill_on_patch = (building_type (objs g a) = BUILDING_DRILL \<and>
                     (case existing_on_grid of None \<Rightarrow> False
                      | Some e \<Rightarrow> building_type (objs g e) = BUILDING_RESOURCE));
                  g1 = (case existing_on_grid of
                          None \<Rightarrow> g
                        | Some e \<Rightarrow> if \<not> is_drill_on_patch \<and> building_type (objs g e) \<noteq> BUILDING_RESOURCE
                                    then remove_structure_from_game g e else g);
                  g2 = g1\<lparr>grid := (grid g1)((gx, gy) := Some a)\<rparr>;
                  g3 = g2\<lparr>structures := AList.update (network_id (objs g2 a)) a (structures g2)\<rparr>;
                  g4 = (if network_mode g3 \<noteq> Client then update_power_lists_add g3 a else g3);
                  g5 = (if building_type (objs g4 a) = BUILDING_DRILL \<and> network_mode g4 \<noteq> Client
                        then setup_on_patch g4 a else g4)
              in (True, g5))"

section \<open>Player actions\<close>

text \<open>\<^verbatim>\<open>self.building_info\<close>: the eight buildable types, each with its cost and class; the
  cost entry is the constant that the class also passes to \<^verbatim>\<open>Structure.__init__\<close>.\<close>

definition building_info :: "btype \<Rightarrow> (string \<times> int) list option" where
  "building_info bt =
     (if bt \<in> {BUILDING_DRILL, BUILDING_CONVEYOR, BUILDING_TURRET, BUILDING_WALL,
                BUILDING_COALGENERATOR, BUILDING_POWERPOLE, BUILDING_BATTERY, BUILDING_RECONSTRUCTOR}
      then Some (cost bt) else None)"

text \<open>\<^verbatim>\<open>info['class'](gx, gy[, orientation])\<close>; \<open>r\<close> is the random draw of \<^verbatim>\<open>Turret.__init__\<close>.\<close>

fun instantiate :: "btype \<Rightarrow> int \<Rightarrow> int \<Rightarrow> int \<Rightarrow> real \<Rightarrow> struct" where
  "instantiate BUILDING_DRILL gx gy orient r = Drill_init gx gy"
| "instantiate BUILDING_CONVEYOR gx gy orient r = Conveyor_init gx gy orient"
| "instantiate BUILDING_TURRET gx gy orient r = Turret_init gx gy r"
| "instantiate BUILDING_WALL gx gy orient r = Wall_init gx gy"
| "instantiate BUILDING_COALGENERATOR gx gy orient r = CoalGenerator_init gx gy"
| "instantiate BUILDING_POWERPOLE gx gy orient r = PowerPole_init gx gy"
| "instantiate BUILDING_BATTERY gx gy orient r = Battery_init gx gy"
| "instantiate BUILDING_RECONSTRUCTOR gx gy orient r = Reconstructor_init gx gy"
| "instantiate BUILDING_CORE gx gy orient r = Core_init gx gy"
| "instantiate bt gx gy orient r = Structure_init gx gy 0 bt"

text \<open>\<^verbatim>\<open>all(self.resources.get(res, 0) >= amount for res, amount in cost.items())\<close>\<close>

definition resources_get :: "(string \<rightharpoonup> int) \<Rightarrow> string \<Rightarrow> int" where
  "resources_get m res = (case m res of None \<Rightarrow> 0 | Some v \<Rightarrow> v)"

definition can_afford :: "(string \<rightharpoonup> int) \<Rightarrow> (string \<times> int) list \<Rightarrow> bool" where
  "can_afford m c = list_all (\<lambda>(res, amount). resources_get m res \<ge> amount) c"

text \<open>\<^verbatim>\<open>for res, amount in cost.items(): self.resources[res] -= amount\<close> and the same loop
  with \<^verbatim>\<open>+=\<close>; an augmented assignment to a missing key raises \<^verbatim>\<open>KeyError\<close>.\<close>

fun deduct_cost :: "(string \<rightharpoonup> int) \<Rightarrow> (string \<times> int) list \<Rightarrow> py_error + (string \<rightharpoonup> int)" where
  "deduct_cost m [] = Inr m"
| "deduct_cost m ((res, amount) # c) =
     (case m res of None \<Rightarrow> Inl KeyError | Some v \<Rightarrow> deduct_cost (m(res \<mapsto> v - amount)) c)"

fun refund_cost :: "(string \<rightharpoonup> int) \<Rightarrow> (string \<times> int) list \<Rightarrow> py_error + (string \<rightharpoonup> int)" where
  "refund_cost m [] = Inr m"
| "refund_cost m ((res, amount) # c) =
     (case m res of None \<Rightarrow> Inl KeyError | Some v \<Rightarrow> refund_cost (m(res \<mapsto> v + amount)) c)"

definition in_build_radius :: "player \<Rightarrow> int \<Rightarrow> int \<Rightarrow> bool" where
  "in_build_radius p gx gy =
     (let (target_center_x, target_center_y) = grid_to_world_center gx gy;
          radius_sq = PLAYER_BUILD_RADIUS * PLAYER_BUILD_RADIUS
      in \<not> distance_sq (pl_world_x p) (pl_world_y p) target_center_x target_center_y > radius_sq)"

text \<open>
  The tile test of \<^verbatim>\<open>action_place_structure\<close>:
  \<^verbatim>\<open>is_drill_on_patch or (is_empty and BuildingClass != Drill)\<close>, where the class is
  \<^verbatim>\<open>Drill\<close> exactly for \<^verbatim>\<open>BUILDING_DRILL\<close>.
\<close>

definition tile_legal :: "game \<Rightarrow> btype \<Rightarrow> int \<Rightarrow> int \<Rightarrow> bool" where
  "tile_legal g b_type gx gy =
     (let existing = get_structure_at g gx gy;
          is_drill_on_patch = (b_type = BUILDING_DRILL \<and>
             (case existing of None \<Rightarrow> False
              | Some e \<Rightarrow> building_type (objs g e) = BUILDING_RESOURCE));
          is_empty = (existing = None)
      in is_drill_on_patch \<or> (is_empty \<and> b_type \<noteq> BUILDING_DRILL))"

text \<open>
  \<^verbatim>\<open>Game.action_place_structure\<close>.  The constructors raise no exception, so the
  \<^verbatim>\<open>except\<close> branch around the instantiation is not reached; the refund after a failed
  \<^verbatim>\<open>_add_structure_to_game\<close> is modelled.  Broadcasts to the server object write no
  attribute of the world and are left out.
\<close>

definition action_place_structure ::
  "game \<Rightarrow> int \<Rightarrow> btype \<Rightarrow> int \<Rightarrow> int \<Rightarrow> int \<Rightarrow> real \<Rightarrow> py_error + (bool \<times> game)" where
  "action_place_structure g pid b_type gx gy orient r =
     (if network_mode g = Client then Inr (False, g)
      else case (map_of (players g) pid, building_info b_type) of
        (None, _) \<Rightarrow> Inr (False, g)
      | (_, None) \<Rightarrow> Inr (False, g)
      | (Some player, Some cost_dict) \<Rightarrow>
          if b_type = BUILDING_NONE then Inr (False, g)
          else if \<not> in_bounds g gx gy then Inr (False, g)
          else if \<not> can_afford (resources g) cost_dict then Inr (False, g)
          else if \<not> in_build_radius player gx gy then Inr (False, g)
          else if \<not> tile_legal g b_type gx gy then Inr (False, g)
          else case deduct_cost (resources g) cost_dict of
             Inl e \<Rightarrow> Inl e
           | Inr res1 \<Rightarrow>
               let (new_structure, g1) =
                     new_object (g\<lparr>resources := res1\<rparr>) (instantiate b_type gx gy orient r);
                   (added, g2) = add_structure_to_game g1 new_structure
               in if \<not> added
                  then (case refund_cost (resources g2) cost_dict of
                          Inl e \<Rightarrow> Inl e
                        | Inr res2 \<Rightarrow> Inr (False, g2\<lparr>resources := res2\<rparr>))
                  else Inr (True, g2))"

text \<open>\<^verbatim>\<open>int(x)\<close> on a float truncates towards zero.\<close>

definition py_int :: "real \<Rightarrow> int" where
  "py_int x = (if 0 \<le> x then \<lfloor>x\<rfloor> else \<lceil>x\<rceil>)"

text \<open>\<^verbatim>\<open>self.resources[res] = self.resources.get(res, 0) + int(amount * DELETE_REFUND_RATIO)\<close>\<close>

fun refund_removed :: "(string \<rightharpoonup> int) \<Rightarrow> (string \<times> int) list \<Rightarrow> (string \<rightharpoonup> int)" where
  "refund_removed m [] = m"
| "refund_removed m ((res, amount) # c) =
     refund_removed (m(res \<mapsto> resources_get m res + py_int (real_of_int amount * DELETE_REFUND_RATIO))) c"

text \<open>\<^verbatim>\<open>Game.action_remove_structure\<close>\<close>

definition action_remove_structure :: "game \<Rightarrow> int \<Rightarrow> int \<Rightarrow> int \<Rightarrow> bool \<times> game" where
  "action_remove_structure g pid gx gy =
     (if network_mode g = Client then (False, g)
      else case (map_of (players g) pid, get_structure_at g gx gy) of
        (None, _) \<Rightarrow> (False, g)
      | (_, None) \<Rightarrow> (False, g)
      | (Some player, Some struct_to_remove) \<Rightarrow>
          if building_type (objs g struct_to_remove) \<in> {BUILDING_CORE, BUILDING_RESOURCE} then (False, g)
          else if \<not> in_build_radius player gx gy then (False, g)
          else let g1 = g\<lparr>resources :=
                          refund_removed (resources g) (cost (building_type (objs g struct_to_remove)))\<rparr>
               in (True, remove_structure_from_game g1 struct_to_remove))"

text \<open>\<^verbatim>\<open>Game.action_upgrade_structure\<close>\<close>

definition action_upgrade_structure :: "game \<Rightarrow> int \<Rightarrow> int \<Rightarrow> int \<Rightarrow> py_error + (bool \<times> game)" where
  "action_upgrade_structure g pid gx gy =
     (if network_mode g = Client then Inr (False, g)
      else case (map_of (players g) pid, get_structure_at g gx gy) of
        (None, _) \<Rightarrow> Inr (False, g)
      | (_, None) \<Rightarrow> Inr (False, g)
      | (Some player, Some target) \<Rightarrow>
          if \<not> in_build_radius player gx gy then Inr (False, g)
          else if \<not> can_upgrade (objs g target) then Inr (False, g)
          else case get_next_upgrade_cost (objs g target) of
             None \<Rightarrow> Inr (False, g)
           | Some cost_dict \<Rightarrow>
               if \<not> can_afford (resources g) cost_dict then Inr (False, g)
               else case deduct_cost (resources g) cost_dict of
                  Inl e \<Rightarrow> Inl e
                | Inr res1 \<Rightarrow>
                    let was_consumer = is_power_consumer (objs g target);
                        was_node = is_power_node (objs g target);
                        (success, t') = apply_upgrade (objs g target);
                        g1 = g\<lparr>resources := res1, objs := (objs g)(target := t')\<rparr>
                    in if success
                       then Inr (True,
                              if network_mode g1 \<noteq> Client \<and>
                                 (is_power_consumer (objs g1 target) \<noteq> was_consumer \<or>
                                  is_power_node (objs g1 target) \<noteq> was_node)
                              then update_power_lists_add (update_power_lists_remove g1 target) target
                              else g1)
                       else (case refund_cost (resources g1) cost_dict of
                               Inl e \<Rightarrow> Inl e
                             | Inr res2 \<Rightarrow> Inr (False, g1\<lparr>resources := res2\<rparr>)))"

section \<open>Construction of a world\<close>

definition UI_HEIGHT :: int where "UI_HEIGHT = 140"

text \<open>\<^verbatim>\<open>Player.__init__(start_x, start_y, player_id, name, color_index)\<close>\<close>

definition Player_init :: "real \<Rightarrow> real \<Rightarrow> int \<Rightarrow> string \<Rightarrow> int \<Rightarrow> player" where
  "Player_init start_x start_y pid name cidx =
     \<lparr> player_id = pid, pl_world_x = start_x, pl_world_y = start_y, pl_speed = PLAYER_SPEED,
       move_x = 0, move_y = 0, pl_name = name, color_index = cidx \<rparr>"

text \<open>
  \<^verbatim>\<open>Game.__init__\<close> without \<^verbatim>\<open>load_data\<close>, up to the point where the mode-specific setup
  starts: the world as a client holds it before the first snapshot arrives, with empty
  containers.  The arguments are the screen size and the network mode.  Every reference
  of the fresh store is unused.
\<close>

definition Game_init :: "int \<Rightarrow> int \<Rightarrow> mode \<Rightarrow> game" where
  "Game_init screen_w screen_h m =
     \<lparr> grid_width = screen_w div \<lfloor>TILE_SIZE\<rfloor>,
       grid_height = (screen_h - UI_HEIGHT) div \<lfloor>TILE_SIZE\<rfloor>,
       map_width_px = real_of_int screen_w,
       map_height_px = real_of_int ((screen_h - UI_HEIGHT) div \<lfloor>TILE_SIZE\<rfloor>) * TILE_SIZE,
       network_mode = m, running = True,
       resources = [RES_COPPER \<mapsto> STARTING_COPPER, RES_COAL \<mapsto> STARTING_COAL],
       wave_number = 0, wave_timer = WAVE_COOLDOWN, in_wave = False, game_over = False,
       game_won = False,
       objs = (\<lambda>_. Structure_init 0 0 0 BUILDING_NONE), next_ref = 0,
       grid = (\<lambda>_. None), structures = [], enemies = [], projectiles = [], players = [],
       core = None, base_terrain = Map.empty, power_nodes = [], power_consumers = [],
       power_grid_update_timer = 0, power_grid_update_interval = 3 / 10, dt = 0,
       enemies_to_spawn_this_wave = 0, enemies_spawned_this_wave = 0, enemy_spawn_timer = 0,
       current_enemy_hp = ENEMY_START_HP, max_waves = MAX_WAVES,
       next_enemy_id = 0, next_projectile_id = 0 \<rparr>"

section \<open>Item transport\<close>

text \<open>Indexing a list with a Python integer: a negative index counts from the end, an index
  outside the list raises \<^verbatim>\<open>IndexError\<close>.\<close>

definition py_nth :: "'a list \<Rightarrow> int \<Rightarrow> py_error + 'a" where
  "py_nth xs i =
     (if 0 \<le> i \<and> i < int (length xs) then Inr (xs ! nat i)
      else if i < 0 \<and> - int (length xs) \<le> i then Inr (xs ! nat (int (length xs) + i))
      else Inl IndexError)"

text \<open>\<^verbatim>\<open>Structure.get_neighbor(game, direction_index)\<close>\<close>

definition get_neighbor :: "game \<Rightarrow> nat \<Rightarrow> int \<Rightarrow> py_error + nat option" where
  "get_neighbor g a direction_index =
     (case py_nth ORIENTATIONS direction_index of
        Inl e \<Rightarrow> Inl e
      | Inr (dx, dy) \<Rightarrow> Inr (get_structure_at g (grid_x (objs g a) + dx) (grid_y (objs g a) + dy)))"

text \<open>
  \<^verbatim>\<open>try_accept_item(source_structure, game, item_type)\<close> of the object \<open>t\<close>, dispatched on
  its class: \<^verbatim>\<open>Core\<close>, \<^verbatim>\<open>Conveyor\<close>, \<^verbatim>\<open>Turret\<close> (through \<^verbatim>\<open>try_accept_ammo\<close>) and
  \<^verbatim>\<open>CoalGenerator\<close> (through \<^verbatim>\<open>try_accept_coal\<close>) override the method, every other class
  inherits \<^verbatim>\<open>return False\<close>.  The source structure is not used by any of them.
\<close>

definition try_accept_item :: "game \<Rightarrow> nat \<Rightarrow> string \<Rightarrow> bool \<times> game" where
  "try_accept_item g t it =
     (let s = objs g t
      in if building_type s = BUILDING_CORE
         then (case resources g it of
                 Some v \<Rightarrow> (True, g\<lparr>resources := (resources g)(it \<mapsto> v + 1)\<rparr>)
               | None \<Rightarrow> (False, g))
         else if building_type s = BUILDING_CONVEYOR
         then (if item_count s < capacity s
               then (if item_count s = 0
                     then (True, g\<lparr>objs := (objs g)(t := s\<lparr>item_type := Some it, item_progress := 0,
                                                             item_count := item_count s + 1\<rparr>)\<rparr>)
                     else if Some it = item_type s
                     then (True, g\<lparr>objs := (objs g)(t := s\<lparr>item_count := item_count s + 1\<rparr>)\<rparr>)
                     else (False, g))
               else (False, g))
         else if building_type s = BUILDING_TURRET
         then (if it = RES_COPPER \<and> tier s < 3
               then (if tier s < 3 \<and> ammo s < capacity s
                     then (True, g\<lparr>objs := (objs g)(t := s\<lparr>ammo := ammo s + 1\<rparr>)\<rparr>)
                     else (False, g))
               else (False, g))
         else if building_type s = BUILDING_COALGENERATOR
         then (if it = RES_COAL
               then (if coal_buffer s < COALGENERATOR_INPUT_CAP
                     then (True, g\<lparr>objs := (objs g)(t := s\<lparr>coal_buffer := coal_buffer s + 1\<rparr>)\<rparr>)
                     else (False, g))
               else (False, g))
         else (False, g))"

text \<open>\<^verbatim>\<open>Conveyor.try_push_item(game)\<close>\<close>

definition try_push_item :: "game \<Rightarrow> nat \<Rightarrow> py_error + (bool \<times> game)" where
  "try_push_item g a =
     (case item_type (objs g a) of
        None \<Rightarrow> Inr (False, g)
      | Some it \<Rightarrow>
          if item_count (objs g a) \<le> 0 then Inr (False, g)
          else case get_neighbor g a (orientation (objs g a)) of
             Inl e \<Rightarrow> Inl e
           | Inr None \<Rightarrow> Inr (False, g)
           | Inr (Some target) \<Rightarrow> Inr (try_accept_item g target it))"

text \<open>
  \<^verbatim>\<open>Conveyor.update(game)\<close> on the conveyor \<open>a\<close>.  The method returns nothing; the model
  returns the new world and, beside it, what the call of \<^verbatim>\<open>try_push_item\<close> returned in
  this update (\<open>None\<close> when the update did not reach it).  The conveyor is read again
  from the store after the push, as the source reads \<^verbatim>\<open>self\<close>.
\<close>

definition Conveyor_update :: "game \<Rightarrow> nat \<Rightarrow> py_error + (bool option \<times> game)" where
  "Conveyor_update g a =
     (let s = objs g a
      in if item_count s > 0 \<and> transfer_time s > 0
         then let delta_progress = dt g / transfer_time s;
                  g1 = g\<lparr>objs := (objs g)(a := s\<lparr>item_progress := item_progress s + delta_progress\<rparr>)\<rparr>
              in if item_progress (objs g1 a) \<ge> 1
                 then (case try_push_item g1 a of
                         Inl e \<Rightarrow> Inl e
                       | Inr (pushed, g2) \<Rightarrow>
                           if pushed
                           then let s3 = (objs g2 a)\<lparr>item_count := item_count (objs g2 a) - 1\<rparr>
                                in Inr (Some True, g2\<lparr>objs := (objs g2)(a :=
                                     if item_count s3 > 0
                                     then s3\<lparr>item_progress := max 0 (item_progress s3 - 1)\<rparr>
                                     else s3\<lparr>item_progress := 0, item_type := None\<rparr>)\<rparr>)
                           else Inr (Some False, g2\<lparr>objs := (objs g2)(a := (objs g2 a)\<lparr>item_progress := 1\<rparr>)\<rparr>))
                 else Inr (None, g1)
         else Inr (None, g))"

section \<open>Power distribution\<close>

text \<open>
  \<^verbatim>\<open>Game.update_power_grid\<close> never assigns \<^verbatim>\<open>self.grid\<close>, the power lists or
  \<^verbatim>\<open>self.dt\<close>; it only mutates structure objects.  Its parts therefore take the world
  \<open>G\<close> at entry, for the grid and the lists, and thread the store \<open>h\<close> of objects.
  The Python sets of nodes are lists without duplicates, in the order of insertion; the
  order of a set is visible only in which of two equally near nodes
  \<^verbatim>\<open>find_closest_node_in_set\<close> returns.  The tolerance \<^verbatim>\<open>1e-9\<close> is \<open>EPS\<close>.
\<close>

definition EPS :: real where "EPS = 1 / 1000000000"

text \<open>Step 1: reset the status of the nodes, then of the consumers.\<close>

definition reset_node :: "struct \<Rightarrow> struct" where
  "reset_node s =
     (let s1 = s\<lparr>is_on_grid := False, connected_nodes_coords := []\<rparr>
      in if is_power_storage s1 then s1\<lparr>is_charging := False, is_discharging := False\<rparr> else s1)"

definition reset_consumer :: "struct \<Rightarrow> struct" where
  "reset_consumer s = s\<lparr>is_powered := False, power_source_coords := None\<rparr>"

definition reset_power_status :: "game \<Rightarrow> (nat \<Rightarrow> struct)" where
  "reset_power_status G =
     fold (\<lambda>c h. h(c := reset_consumer (h c))) (power_consumers G)
       (fold (\<lambda>n h. h(n := reset_node (h n))) (power_nodes G) (objs G))"

text \<open>Step 2: the seeds and the breadth-first search.\<close>

definition potential_seeds :: "game \<Rightarrow> (nat \<Rightarrow> struct) \<Rightarrow> nat list" where
  "potential_seeds G h =
     filter (\<lambda>n. is_power_source (h n) \<or> (is_power_storage (h n) \<and> charge (h n) > EPS)) (power_nodes G)"

text \<open>
  The two nested \<^verbatim>\<open>range(-radius_grid_search, radius_grid_search + 1)\<close> loops without the
  offset (0, 0), where \<^verbatim>\<open>radius_grid_search = int(POWER_RADIUS / TILE_SIZE) + 1\<close>.
\<close>

definition radius_grid_search :: int where
  "radius_grid_search = py_int (POWER_RADIUS / TILE_SIZE) + 1"

definition neighbor_offsets :: "(int \<times> int) list" where
  "neighbor_offsets =
     filter (\<lambda>(dx, dy). \<not> (dx = 0 \<and> dy = 0))
       (concat (map (\<lambda>dx. map (\<lambda>dy. (dx, dy)) [- radius_grid_search .. radius_grid_search])
                    [- radius_grid_search .. radius_grid_search]))"

text \<open>The body of the inner \<^verbatim>\<open>if\<close>: record the connection on both ends, each once.\<close>

definition link_nodes :: "(nat \<Rightarrow> struct) \<Rightarrow> nat \<Rightarrow> nat \<Rightarrow> (nat \<Rightarrow> struct)" where
  "link_nodes h cur nb =
     (let curr_coords = (center_x (h cur), center_y (h cur));
          neighbor_coords = (center_x (h nb), center_y (h nb));
          h1 = (if neighbor_coords \<notin> set (connected_nodes_coords (h cur))
                then h(cur := (h cur)\<lparr>connected_nodes_coords :=
                                        connected_nodes_coords (h cur) @ [neighbor_coords]\<rparr>)
                else h)
      in if curr_coords \<notin> set (connected_nodes_coords (h1 nb))
         then h1(nb := (h1 nb)\<lparr>connected_nodes_coords := connected_nodes_coords (h1 nb) @ [curr_coords]\<rparr>)
         else h1)"

definition is_valid_neighbor :: "(nat \<Rightarrow> struct) \<Rightarrow> nat \<Rightarrow> nat \<Rightarrow> bool" where
  "is_valid_neighbor h cur nb =
     (is_power_node (h nb) \<and>
      distance_sq (center_x (h cur)) (center_y (h cur)) (center_x (h nb)) (center_y (h nb))
        \<le> POWER_RADIUS ^ 2)"

text \<open>
  The scan around \<open>cur\<close>.  A neighbour that passes the test is added to
  \<^verbatim>\<open>visited_in_bfs\<close> and appended to the queue in the same step, so the scan collects the
  new nodes in \<open>new\<close>: afterwards \<^verbatim>\<open>visited_in_bfs\<close> is \<open>visited @ new\<close> and the queue
  has grown by the nodes of \<open>new\<close>, each with depth + 1.
\<close>

fun scan_neighbors ::
  "game \<Rightarrow> nat \<Rightarrow> (int \<times> int) list \<Rightarrow> nat list \<Rightarrow> nat list \<Rightarrow> (nat \<Rightarrow> struct)
     \<Rightarrow> nat list \<times> (nat \<Rightarrow> struct)" where
  "scan_neighbors G cur [] visited new h = (new, h)"
| "scan_neighbors G cur ((dx, dy) # offs) visited new h =
     (case get_structure_at G (grid_x (h cur) + dx) (grid_y (h cur) + dy) of
        None \<Rightarrow> scan_neighbors G cur offs visited new h
      | Some nb \<Rightarrow>
          if nb \<notin> set visited \<and> nb \<notin> set new \<and> is_valid_neighbor h cur nb
          then scan_neighbors G cur offs visited (new @ [nb]) (link_nodes h cur nb)
          else scan_neighbors G cur offs visited new h)"

text \<open>The references held by the cells inside the bounds of the grid.\<close>

definition grid_refs :: "game \<Rightarrow> nat set" where
  "grid_refs G = {a. \<exists>x y. in_bounds G x y \<and> grid G (x, y) = Some a}"

text \<open>
  The \<^verbatim>\<open>while queue:\<close> loop.  It ends because every scan moves nodes of the finite grid
  into \<^verbatim>\<open>visited_in_bfs\<close>, never twice the same.
\<close>

function bfs ::
  "game \<Rightarrow> (nat \<times> nat) list \<Rightarrow> nat list \<Rightarrow> nat list \<Rightarrow> (nat \<Rightarrow> struct)
     \<Rightarrow> nat list \<times> (nat \<Rightarrow> struct)" where
  "bfs G [] visited net h = (net, h)"
| "bfs G ((cur, depth) # queue) visited net h =
     (let net1 = (if cur \<in> set net then net else net @ [cur]);
          h1 = h(cur := (h cur)\<lparr>is_on_grid := True\<rparr>)
      in if depth \<ge> POWER_SEARCH_DEPTH_LIMIT then bfs G queue visited net1 h1
         else bfs G (queue @ map (\<lambda>n. (n, depth + 1))
                                 (fst (scan_neighbors G cur neighbor_offsets visited [] h1)))
                    (visited @ fst (scan_neighbors G cur neighbor_offsets visited [] h1))
                    net1
                    (snd (scan_neighbors G cur neighbor_offsets visited [] h1)))"
  by pat_completeness auto
termination
proof (relation "measure (\<lambda>(G, queue, visited, net, h).
                   2 * card (grid_refs G - set visited) + length queue)", goal_cases)
  case 1
  show ?case by simp
next
  case (2 G cur depth queue visited net h x xa)
  show ?case by simp
next
  case (3 G cur depth queue visited net h x xa)
  have fin: "finite (grid_refs G)"
  proof -
    have "grid_refs G \<subseteq> (\<lambda>p. the (grid G p)) ` ({0..<grid_width G} \<times> {0..<grid_height G})"
      by (force simp: grid_refs_def in_bounds_def image_iff)
    then show ?thesis by (rule finite_subset) simp
  qed
  have scan: "distinct (fst (scan_neighbors G c offs visited new hh))
       \<and> set (fst (scan_neighbors G c offs visited new hh)) \<subseteq> set new \<union> (grid_refs G - set visited)"
    if "distinct new" for c offs new hh
    using that
  proof (induction offs arbitrary: new hh)
    case Nil
    then show ?case by auto
  next
    case (Cons p offs)
    obtain dx dy where p: "p = (dx, dy)" by (cases p)
    show ?case
    proof (cases "get_structure_at G (grid_x (hh c) + dx) (grid_y (hh c) + dy)")
      case None
      then show ?thesis using Cons p by simp
    next
      case (Some nb)
      then have nb: "nb \<in> grid_refs G"
        by (auto simp: get_structure_at_def grid_refs_def split: if_splits)
      show ?thesis
      proof (cases "nb \<notin> set visited \<and> nb \<notin> set new \<and> is_valid_neighbor hh c nb")
        case True
        then have d: "distinct (new @ [nb])" using Cons.prems by simp
        from Cons.IH[OF d, of "link_nodes hh c nb"] True nb Some p
        show ?thesis by auto
      next
        case False
        with Cons Some p show ?thesis by auto
      qed
    qed
  qed
  define new where "new = fst (scan_neighbors G cur neighbor_offsets visited [] xa)"
  from scan[of "[]" cur neighbor_offsets xa]
  have d: "distinct new" and s: "set new \<subseteq> grid_refs G - set visited"
    by (auto simp: new_def)
  have "grid_refs G - set (visited @ new) = (grid_refs G - set visited) - set new" by auto
  then have "card (grid_refs G - set (visited @ new)) = card (grid_refs G - set visited) - card (set new)"
    using s fin by (simp add: card_Diff_subset)
  moreover have "card (set new) \<le> card (grid_refs G - set visited)"
    using s fin by (simp add: card_mono)
  moreover have "card (set new) = length new" using d by (simp add: distinct_card)
  ultimately show ?case
    unfolding new_def[symmetric] by simp
qed

text \<open>The loop over the seeds; \<open>processed\<close> is \<^verbatim>\<open>processed_nodes\<close>, \<open>nets\<close> is
  \<^verbatim>\<open>all_networks\<close>.\<close>

fun discover_networks ::
  "game \<Rightarrow> nat list \<Rightarrow> nat list \<Rightarrow> nat list list \<Rightarrow> (nat \<Rightarrow> struct)
     \<Rightarrow> nat list list \<times> (nat \<Rightarrow> struct)" where
  "discover_networks G [] processed nets h = (nets, h)"
| "discover_networks G (seed_node # seeds) processed nets h =
     (if seed_node \<in> set processed then discover_networks G seeds processed nets h
      else let (current_network_nodes, h1) = bfs G [(seed_node, 0)] [seed_node] [] h
           in discover_networks G seeds
                (processed @ filter (\<lambda>n. n \<notin> set processed) current_network_nodes)
                (if current_network_nodes \<noteq> [] then nets @ [current_network_nodes] else nets)
                h1)"

text \<open>\<^verbatim>\<open>Game.find_closest_node_in_set(consumer, node_set)\<close>\<close>

fun find_closest_from ::
  "(nat \<Rightarrow> struct) \<Rightarrow> nat \<Rightarrow> nat list \<Rightarrow> nat option \<Rightarrow> real \<Rightarrow> nat option" where
  "find_closest_from h consumer [] closest_node min_dist_sq = closest_node"
| "find_closest_from h consumer (node # nodes) closest_node min_dist_sq =
     (let d_sq = distance_sq (center_x (h consumer)) (center_y (h consumer))
                   (center_x (h node)) (center_y (h node))
      in if d_sq \<le> POWER_RADIUS * POWER_RADIUS \<and> d_sq < min_dist_sq
         then find_closest_from h consumer nodes (Some node) d_sq
         else find_closest_from h consumer nodes closest_node min_dist_sq)"

definition find_closest_node_in_set :: "(nat \<Rightarrow> struct) \<Rightarrow> nat \<Rightarrow> nat list \<Rightarrow> nat option" where
  "find_closest_node_in_set h consumer node_set =
     find_closest_from h consumer node_set None (POWER_RADIUS * POWER_RADIUS + 1)"

text \<open>Step 3 for one network: the quantities the source computes before it decides.\<close>

definition total_generation_rate :: "(nat \<Rightarrow> struct) \<Rightarrow> nat list \<Rightarrow> real" where
  "total_generation_rate h net =
     sum_list (map (\<lambda>n. COALGENERATOR_POWER_OUTPUT)
        (filter (\<lambda>n. building_type (h n) = BUILDING_COALGENERATOR \<and> is_power_source (h n)) net))"

definition consumers_in_this_network :: "game \<Rightarrow> (nat \<Rightarrow> struct) \<Rightarrow> nat list \<Rightarrow> (nat \<times> nat) list" where
  "consumers_in_this_network G h net =
     concat (map (\<lambda>consumer. case find_closest_node_in_set h consumer net of
                                None \<Rightarrow> [] | Some closest_node \<Rightarrow> [(consumer, closest_node)])
                 (power_consumers G))"

definition total_consumption_rate :: "game \<Rightarrow> (nat \<Rightarrow> struct) \<Rightarrow> nat list \<Rightarrow> real" where
  "total_consumption_rate G h net =
     sum_list (map (\<lambda>(consumer, node). power_consumption (h consumer)) (consumers_in_this_network G h net))"

definition batteries_in_network :: "(nat \<Rightarrow> struct) \<Rightarrow> nat list \<Rightarrow> nat list" where
  "batteries_in_network h net = filter (\<lambda>n. is_power_storage (h n)) net"

definition max_possible_discharge_rate :: "(nat \<Rightarrow> struct) \<Rightarrow> nat list \<Rightarrow> real" where
  "max_possible_discharge_rate h net =
     sum_list (map (\<lambda>b. discharge_rate (h b))
        (filter (\<lambda>b. charge (h b) > EPS) (batteries_in_network h net)))"

definition discharge_available :: "struct \<Rightarrow> real \<Rightarrow> real" where
  "discharge_available b delta_time = min (charge b) (discharge_rate b * delta_time)"

definition charge_room :: "struct \<Rightarrow> real \<Rightarrow> real" where
  "charge_room b delta_time = min (real_of_int (capacity b) - charge b) (charge_rate b * delta_time)"

definition total_available_discharge_amount :: "(nat \<Rightarrow> struct) \<Rightarrow> nat list \<Rightarrow> real \<Rightarrow> real" where
  "total_available_discharge_amount h net delta_time =
     sum_list (map (\<lambda>b. discharge_available (h b) delta_time) (batteries_in_network h net))"

definition total_available_charge_room :: "(nat \<Rightarrow> struct) \<Rightarrow> nat list \<Rightarrow> real \<Rightarrow> real" where
  "total_available_charge_room h net delta_time =
     sum_list (map (\<lambda>b. charge_room (h b) delta_time) (batteries_in_network h net))"

definition is_power_sufficient :: "game \<Rightarrow> (nat \<Rightarrow> struct) \<Rightarrow> nat list \<Rightarrow> bool" where
  "is_power_sufficient G h net =
     (total_generation_rate h net + max_possible_discharge_rate h net
        \<ge> total_consumption_rate G h net - EPS)"

text \<open>The two loops over the attached consumers.\<close>

definition power_consumers_on :: "(nat \<Rightarrow> struct) \<Rightarrow> (nat \<times> nat) list \<Rightarrow> (nat \<Rightarrow> struct)" where
  "power_consumers_on h cs =
     fold (\<lambda>(consumer, source_node) h.
             h(consumer := (h consumer)\<lparr>is_powered := True,
                 power_source_coords := Some (center_x (h source_node), center_y (h source_node))\<rparr>))
          cs h"

definition power_consumers_off :: "(nat \<Rightarrow> struct) \<Rightarrow> (nat \<times> nat) list \<Rightarrow> (nat \<Rightarrow> struct)" where
  "power_consumers_off h cs =
     fold (\<lambda>(consumer, source_node) h.
             h(consumer := (h consumer)\<lparr>is_powered := False, power_source_coords := None\<rparr>))
          cs h"

text \<open>The two loops that apply the amounts to the batteries, each in proportion to what
  the battery can give or take.\<close>

definition apply_discharge :: "(nat \<Rightarrow> struct) \<Rightarrow> nat list \<Rightarrow> real \<Rightarrow> real \<Rightarrow> (nat \<Rightarrow> struct)" where
  "apply_discharge h batteries delta_time discharge_fraction =
     fold (\<lambda>battery h.
             let provide = discharge_available (h battery) delta_time * discharge_fraction
             in if provide > EPS
                then h(battery := (h battery)\<lparr>charge := charge (h battery) - provide,
                                                is_discharging := True\<rparr>)
                else h)
          batteries h"

definition apply_charge :: "(nat \<Rightarrow> struct) \<Rightarrow> nat list \<Rightarrow> real \<Rightarrow> real \<Rightarrow> (nat \<Rightarrow> struct)" where
  "apply_charge h batteries delta_time charge_fraction =
     fold (\<lambda>battery h.
             let absorb = charge_room (h battery) delta_time * charge_fraction
             in if absorb > EPS
                then h(battery := (h battery)\<lparr>charge := charge (h battery) + absorb,
                                                is_charging := True\<rparr>)
                else h)
          batteries h"

text \<open>The amounts chosen in steps 5 and 6, from the quantities computed before any consumer
  or battery of this network is written.\<close>

definition actual_discharge_amount :: "game \<Rightarrow> (nat \<Rightarrow> struct) \<Rightarrow> nat list \<Rightarrow> real" where
  "actual_discharge_amount G h net =
     (if is_power_sufficient G h net
      then let power_balance = total_generation_rate h net - total_consumption_rate G h net
           in if power_balance < - EPS
              then min (\<bar>power_balance\<bar> * dt G) (total_available_discharge_amount h net (dt G))
              else 0
      else 0)"

definition actual_charge_amount :: "game \<Rightarrow> (nat \<Rightarrow> struct) \<Rightarrow> nat list \<Rightarrow> real" where
  "actual_charge_amount G h net =
     (if is_power_sufficient G h net
      then let power_balance = total_generation_rate h net - total_consumption_rate G h net
           in if power_balance < - EPS then 0
              else if power_balance > EPS
              then min (power_balance * dt G) (total_available_charge_room h net (dt G))
              else 0
      else min (total_generation_rate h net * dt G) (total_available_charge_room h net (dt G)))"

text \<open>The body of \<^verbatim>\<open>for network_nodes_set in all_networks\<close>.\<close>

definition settle_network :: "game \<Rightarrow> (nat \<Rightarrow> struct) \<Rightarrow> nat list \<Rightarrow> (nat \<Rightarrow> struct)" where
  "settle_network G h net =
     (let delta_time = dt G;
          cs = consumers_in_this_network G h net;
          batteries = batteries_in_network h net;
          avail_discharge = total_available_discharge_amount h net delta_time;
          avail_room = total_available_charge_room h net delta_time;
          discharge_amount = actual_discharge_amount G h net;
          charge_amount = actual_charge_amount G h net;
          h1 = (if is_power_sufficient G h net then power_consumers_on h cs
                else power_consumers_off h cs);
          h2 = (if discharge_amount > EPS \<and> avail_discharge > EPS
                then apply_discharge h1 batteries delta_time (discharge_amount / avail_discharge)
                else h1)
      in if charge_amount > EPS \<and> avail_room > EPS
         then apply_charge h2 batteries delta_time (charge_amount / avail_room)
         else h2)"

definition settle_networks :: "game \<Rightarrow> nat list list \<Rightarrow> (nat \<Rightarrow> struct) \<Rightarrow> (nat \<Rightarrow> struct)" where
  "settle_networks G nets h = fold (\<lambda>net h. settle_network G h net) nets h"

text \<open>\<^verbatim>\<open>Game.update_power_grid\<close>\<close>

definition discovered :: "game \<Rightarrow> nat list list \<times> (nat \<Rightarrow> struct)" where
  "discovered G =
     (let h0 = reset_power_status G
      in discover_networks G (potential_seeds G h0) [] [] h0)"

definition update_power_grid :: "game \<Rightarrow> game" where
  "update_power_grid G =
     (if network_mode G = Client then G
      else G\<lparr>objs := settle_networks G (fst (discovered G)) (snd (discovered G))\<rparr>)"

section \<open>Auxiliary notions for the proofs\<close>

text \<open>The total amount a cost dictionary charges for one resource.\<close>

definition cost_total :: "(string \<times> int) list \<Rightarrow> string \<Rightarrow> int" where
  "cost_total c k = sum_list (map snd (filter (\<lambda>p. fst p = k) c))"

text \<open>Every recorded connection of the object \<open>a\<close> leads to a point within the power radius
  of its centre.\<close>

definition links_ok :: "(nat \<Rightarrow> struct) \<Rightarrow> nat \<Rightarrow> bool" where
  "links_ok h a =
     list_all (\<lambda>c. distance_sq (center_x (h a)) (center_y (h a)) (fst c) (snd c) \<le> POWER_RADIUS ^ 2)
       (connected_nodes_coords (h a))"

text \<open>A step from the store \<open>h\<close> to \<open>h'\<close> that moves no object and keeps \<open>links_ok\<close>.\<close>

definition links_kept :: "(nat \<Rightarrow> struct) \<Rightarrow> (nat \<Rightarrow> struct) \<Rightarrow> bool" where
  "links_kept h h' =
     (\<forall>n. grid_x (h' n) = grid_x (h n) \<and> grid_y (h' n) = grid_y (h n)
          \<and> (links_ok h n \<longrightarrow> links_ok h' n))"

text \<open>A step that changes neither a position nor a connection list.\<close>

definition links_same :: "(nat \<Rightarrow> struct) \<Rightarrow> (nat \<Rightarrow> struct) \<Rightarrow> bool" where
  "links_same h h' =
     (\<forall>n. grid_x (h' n) = grid_x (h n) \<and> grid_y (h' n) = grid_y (h n)
          \<and> connected_nodes_coords (h' n) = connected_nodes_coords (h n))"

section \<open>Example objects and worlds\<close>

definition example_turret :: struct where
  "example_turret = (Turret_init 3 4 0)\<lparr>hp := 75, ammo := 7\<rparr>"

text \<open>
  A single-player world on the default 1280 x 768 screen (a 40 x 19 grid) as
  \<^verbatim>\<open>setup_world\<close> leaves it: the core at (20, 15) under reference 0, player 0 two tiles
  above it, and two of the resource patches, copper at (18, 12) and coal at (25, 10).
\<close>

definition example_world :: game where
  "example_world =
     (Game_init 1280 768 Sp)
       \<lparr> grid_width := 40, grid_height := 19, map_width_px := 1280, map_height_px := 608,
         objs := (\<lambda>_. Structure_init 0 0 0 BUILDING_NONE)
                   (0 := Core_init 20 15, 1 := ResourcePatch_init 18 12 RES_COPPER,
                    2 := ResourcePatch_init 25 10 RES_COAL),
         next_ref := 3,
         grid := (\<lambda>_. None)((20, 15) := Some 0, (18, 12) := Some 1, (25, 10) := Some 2),
         structures := [(''20_15_7'', 0)],
         players := [(0, Player_init 656 432 0 ''Player0'' 0)],
         core := Some 0,
         base_terrain := [(18, 12) \<mapsto> RES_COPPER, (25, 10) \<mapsto> RES_COAL] \<rparr>"

text \<open>The same world after a drill (reference 3) has been placed on the copper patch.\<close>

definition example_drill_world :: game where
  "example_drill_world =
     example_world
       \<lparr> resources := [RES_COPPER \<mapsto> 185, RES_COAL \<mapsto> 100],
         objs := (objs example_world)
                   (3 := (Drill_init 18 12)\<lparr>resource_type_held := Some RES_COPPER, is_on_patch := True\<rparr>),
         next_ref := 4,
         grid := (grid example_world)((18, 12) := Some 3),
         structures := [(''20_15_7'', 0), (''18_12_1'', 3)] \<rparr>"

text \<open>
  The example world with two conveyors and a frame time of 1/60 s: reference 3, tier 2, at
  (20, 14) facing south into the core and carrying two copper items; reference 4 at (10, 5)
  facing east into an empty cell and carrying one.
\<close>

definition example_conveyor_world :: game where
  "example_conveyor_world =
     example_world
       \<lparr> objs := (objs example_world)
                   (3 := (Conveyor_init 20 14 2)
                           \<lparr>tier := 2, max_hp := 70, hp := 70, transfer_time := 55 / 100, capacity := 2,
                            item_type := Some RES_COPPER, item_count := 2, item_progress := 99 / 100\<rparr>,
                    4 := (Conveyor_init 10 5 1)
                           \<lparr>item_type := Some RES_COPPER, item_count := 1, item_progress := 995 / 1000\<rparr>),
         next_ref := 5,
         grid := (grid example_world)((20, 14) := Some 3, (10, 5) := Some 4),
         structures := [(''20_15_7'', 0), (''20_14_2'', 3), (''10_5_2'', 4)],
         dt := 1 / 60 \<rparr>"

text \<open>
  The example world with two burning coal generators eight tiles apart, reference 3 at
  (14, 10) placed first and reference 4 at (6, 10), and four reconstructors: references 5, 6
  and 7 next to the first generator and reference 8 at (10, 10), four tiles from either.
\<close>

definition example_power_world :: game where
  "example_power_world =
     example_world
       \<lparr> objs := (objs example_world)
                   (3 := (CoalGenerator_init 14 10)\<lparr>coal_buffer := 5, is_power_source := True\<rparr>,
                    4 := (CoalGenerator_init 6 10)\<lparr>coal_buffer := 5, is_power_source := True\<rparr>,
                    5 := Reconstructor_init 14 8, 6 := Reconstructor_init 14 12,
                    7 := Reconstructor_init 16 10, 8 := Reconstructor_init 10 10),
         next_ref := 9,
         grid := (grid example_world)
                   ((14, 10) := Some 3, (6, 10) := Some 4, (14, 8) := Some 5, (14, 12) := Some 6,
                    (16, 10) := Some 7, (10, 10) := Some 8),
         structures := [(''20_15_7'', 0), (''14_10_5'', 3), (''6_10_5'', 4), (''14_8_10'', 5),
                        (''14_12_10'', 6), (''16_10_10'', 7), (''10_10_10'', 8)],
         power_nodes := [3, 4],
         power_consumers := [5, 6, 7, 8],
         dt := 1 / 60 \<rparr>"

section \<open>Upgrades\<close>

lemma can_upgrade_tier: "can_upgrade s \<Longrightarrow> tier s = 1 \<or> tier s = 2"
  unfolding can_upgrade_def Let_def
  by (cases "building_type s")
     (auto simp: DRILL_UPGRADE_COST_def CONVEYOR_UPGRADE_COST_def TURRET_UPGRADE_COST_def
        MAX_TIER_def split: if_splits)

lemma can_upgrade_type:
  "can_upgrade s \<Longrightarrow> building_type s \<in> {BUILDING_DRILL, BUILDING_CONVEYOR, BUILDING_TURRET}"
  unfolding can_upgrade_def Let_def
  by (cases "building_type s") auto

lemma update_stats_max_hp_pos:
  assumes "building_type s \<in> {BUILDING_DRILL, BUILDING_CONVEYOR, BUILDING_TURRET}"
    and "tier s = 2 \<or> tier s = 3"
  shows "1 \<le> max_hp (update_stats s)"
  using assms
  by (auto simp: update_stats_def Drill_update_stats_def Conveyor_update_stats_def
      Turret_update_stats_def DRILL_STATS_def CONVEYOR_STATS_def TURRET_STATS_def Let_def)

lemma update_stats_tier: "tier (update_stats s) = tier s"
  by (auto simp: update_stats_def Drill_update_stats_def Conveyor_update_stats_def
      Turret_update_stats_def Let_def)

lemma apply_upgrade_result:
  assumes "apply_upgrade s = (True, s')"
  shows "can_upgrade s"
    and "tier s' = tier s + 1"
    and "max_hp s' = max_hp (update_stats (s\<lparr>tier := tier s + 1\<rparr>))"
    and "hp s' = max 1 (min (max_hp s') (max_hp s' * (if max_hp s > 0 then hp s / max_hp s else 1)))"
proof -
  show cu: "can_upgrade s" using assms by (auto simp: apply_upgrade_def split: if_splits)
  have ty: "has_update_stats (s\<lparr>tier := tier s + 1\<rparr>)"
    using can_upgrade_type[OF cu] by (simp add: has_update_stats_def)
  have t: "tier (s\<lparr>tier := tier s + 1\<rparr>) = 2 \<or> tier (s\<lparr>tier := tier s + 1\<rparr>) = 3"
    using can_upgrade_tier[OF cu] by auto
  have mp: "1 \<le> max_hp (update_stats (s\<lparr>tier := tier s + 1\<rparr>))"
    by (rule update_stats_max_hp_pos) (use can_upgrade_type[OF cu] t in auto)
  show "tier s' = tier s + 1" using assms cu ty
    by (auto simp: apply_upgrade_def Let_def update_stats_tier split: if_splits)
  show m: "max_hp s' = max_hp (update_stats (s\<lparr>tier := tier s + 1\<rparr>))" using assms cu ty
    by (auto simp: apply_upgrade_def Let_def split: if_splits)
  define r where "r = (if max_hp s > 0 then hp s / max_hp s else 1)"
  define u where "u = update_stats (s\<lparr>tier := tier s + 1\<rparr>)"
  have "snd (apply_upgrade s) = (if min (max_hp u) (max_hp u * r) < 1 then u\<lparr>hp := 1\<rparr>
                  else u\<lparr>hp := min (max_hp u) (max_hp u * r)\<rparr>)"
    using cu ty mp unfolding r_def u_def apply_upgrade_def Let_def
    by simp
  moreover from assms have "snd (apply_upgrade s) = s'" by (simp only: snd_conv)
  ultimately have s': "s' = (if min (max_hp u) (max_hp u * r) < 1 then u\<lparr>hp := 1\<rparr>
                  else u\<lparr>hp := min (max_hp u) (max_hp u * r)\<rparr>)"
    by (simp only:)
  have "hp s' = max 1 (min (max_hp u) (max_hp u * r))"
    unfolding s' by (auto simp: max_def min_def)
  then show "hp s' = max 1 (min (max_hp s') (max_hp s' * (if max_hp s > 0 then hp s / max_hp s else 1)))"
    unfolding m r_def u_def .
qed

text \<open>
  C4.  A structure whose hit points lie between 0 and a positive \<open>max_hp\<close> is upgraded
  (\<^verbatim>\<open>apply_upgrade\<close> returns true, which needs \<open>tier < max_tier\<close> and a cost entry for the
  next tier).  Then the tier has grown by exactly one; the new ratio \<open>hp / max_hp\<close> differs
  from the old one by at most one hit point, that is by at most \<open>1 / max_hp\<close>, and is equal
  to it whenever the proportional value is at least one hit point; and the new \<open>hp\<close> is at
  least 1 whenever the new \<open>max_hp\<close> is positive.
\<close>

theorem upgrade_tier_and_hp:
  assumes "apply_upgrade s = (True, s')" and "0 \<le> hp s" and "hp s \<le> max_hp s" and "0 < max_hp s"
  shows "tier s' = tier s + 1
       \<and> \<bar>hp s' / max_hp s' - hp s / max_hp s\<bar> \<le> 1 / max_hp s'
       \<and> (1 \<le> max_hp s' * (hp s / max_hp s) \<longrightarrow> hp s' / max_hp s' = hp s / max_hp s)
       \<and> (0 < max_hp s' \<longrightarrow> 1 \<le> hp s')"
proof -
  note r = apply_upgrade_result[OF assms(1)]
  define M where "M = max_hp s'"
  define q where "q = hp s / max_hp s"
  have q: "0 \<le> q" "q \<le> 1" using assms by (auto simp: q_def)
  have t: "tier (s\<lparr>tier := tier s + 1\<rparr>) = 2 \<or> tier (s\<lparr>tier := tier s + 1\<rparr>) = 3"
    using can_upgrade_tier[OF r(1)] by auto
  have M: "1 \<le> M" unfolding M_def r(3)
    by (rule update_stats_max_hp_pos) (use can_upgrade_type[OF r(1)] t in auto)
  have Mq: "M * q \<le> M" using q M by (simp add: mult_left_le)
  have h: "hp s' = max 1 (M * q)"
    using r(4) assms(4) Mq by (simp add: M_def q_def min_def)
  have "\<bar>hp s' - M * q\<bar> \<le> 1" using h q M by (auto simp: max_def)
  then have "\<bar>hp s' / M - q\<bar> \<le> 1 / M"
    using M by (simp add: field_simps abs_le_iff)
  moreover have "1 \<le> M * q \<longrightarrow> hp s' / M = q" using h M by (auto simp: max_def)
  moreover have "1 \<le> hp s'" using h by simp
  ultimately show ?thesis using r(2) by (simp add: M_def q_def)
qed

lemma example_turret_upgrade:
  "fst (apply_upgrade example_turret)"
  "tier (snd (apply_upgrade example_turret)) = 2"
  "hp (snd (apply_upgrade example_turret)) = 110"
  "max_hp (snd (apply_upgrade example_turret)) = 220"
  "hp example_turret = 75" "max_hp example_turret = 150" "tier example_turret = 1"
  "building_type example_turret = BUILDING_TURRET" "ammo example_turret = 7"
  by (simp_all add: example_turret_def Turret_init_def Structure_init_def Turret_update_stats_def
      TURRET_STATS_def apply_upgrade_def can_upgrade_def TURRET_UPGRADE_COST_def MAX_TIER_def
      has_update_stats_def update_stats_def Let_def)

lemma example_turret_upgraded:
  "apply_upgrade example_turret = (True, snd (apply_upgrade example_turret))"
  using example_turret_upgrade(1) by (simp add: prod_eq_iff)

theorem upgrade_tier_and_hp_witness:
  "apply_upgrade example_turret = (True, snd (apply_upgrade example_turret))
   \<and> 0 \<le> hp example_turret \<and> hp example_turret \<le> max_hp example_turret
   \<and> 0 < max_hp example_turret
   \<and> tier (snd (apply_upgrade example_turret)) = tier example_turret + 1
   \<and> hp (snd (apply_upgrade example_turret)) / max_hp (snd (apply_upgrade example_turret))
       = hp example_turret / max_hp example_turret
   \<and> 1 \<le> hp (snd (apply_upgrade example_turret))"
proof -
  have h: "0 \<le> hp example_turret" "hp example_turret \<le> max_hp example_turret"
    "0 < max_hp example_turret"
    by (simp_all add: example_turret_upgrade)
  show ?thesis
    using upgrade_tier_and_hp[OF example_turret_upgraded h] h
    by (simp add: example_turret_upgrade prod_eq_iff)
qed

text \<open>
  C10.  Every successful upgrade of a turret leaves its ammo at 0, whatever it held before:
  a successful upgrade reaches tier 2 or 3, an index inside \<^verbatim>\<open>TURRET_STATS\<close>, and
  \<^verbatim>\<open>Turret.update_stats\<close> then assigns \<^verbatim>\<open>self.ammo = 0\<close>.
\<close>

theorem turret_upgrade_resets_ammo:
  assumes "building_type s = BUILDING_TURRET" and "apply_upgrade s = (True, s')"
  shows "ammo s' = 0"
proof -
  from assms(2) have cu: "can_upgrade s" by (auto simp: apply_upgrade_def split: if_splits)
  then have t: "tier s = 1 \<or> tier s = 2" by (rule can_upgrade_tier)
  from assms cu t show ?thesis
    by (auto simp: apply_upgrade_def Let_def has_update_stats_def update_stats_def
        Turret_update_stats_def TURRET_STATS_def split: if_splits)
qed

theorem turret_upgrade_resets_ammo_witness:
  "building_type example_turret = BUILDING_TURRET
   \<and> apply_upgrade example_turret = (True, snd (apply_upgrade example_turret))
   \<and> ammo example_turret = 7 \<and> ammo (snd (apply_upgrade example_turret)) = 0"
  using turret_upgrade_resets_ammo[OF example_turret_upgrade(8) example_turret_upgraded]
  by (simp add: example_turret_upgrade prod_eq_iff)

section \<open>Placement\<close>

lemma deduct_cost_Inr:
  "deduct_cost m c = Inr m1 \<Longrightarrow>
     fst ` set c \<subseteq> dom m \<and> m1 = (\<lambda>k. map_option (\<lambda>v. v - cost_total c k) (m k))"
proof (induction c arbitrary: m)
  case Nil
  then show ?case by (auto simp: cost_total_def option.map_ident)
next
  case (Cons p c)
  obtain res amount where p: "p = (res, amount)" by (cases p)
  from Cons.prems p obtain v where v: "m res = Some v"
    and d: "deduct_cost (m(res \<mapsto> v - amount)) c = Inr m1"
    by (auto split: option.splits)
  from Cons.IH[OF d] have k: "fst ` set c \<subseteq> dom (m(res \<mapsto> v - amount))"
    and m1: "m1 = (\<lambda>k. map_option (\<lambda>v. v - cost_total c k) ((m(res \<mapsto> v - amount)) k))"
    by auto
  have "fst ` set (p # c) \<subseteq> dom m" using k v p by auto
  moreover have "m1 = (\<lambda>k. map_option (\<lambda>v. v - cost_total (p # c) k) (m k))"
    unfolding m1 using v p by (auto simp: fun_eq_iff cost_total_def)
  ultimately show ?case by simp
qed

lemma refund_cost_total:
  "fst ` set c \<subseteq> dom m \<Longrightarrow>
     refund_cost m c = Inr (\<lambda>k. map_option (\<lambda>v. v + cost_total c k) (m k))"
proof (induction c arbitrary: m)
  case Nil
  then show ?case by (auto simp: cost_total_def option.map_ident)
next
  case (Cons p c)
  obtain res amount where p: "p = (res, amount)" by (cases p)
  from Cons.prems p obtain v where v: "m res = Some v" by auto
  have "fst ` set c \<subseteq> dom (m(res \<mapsto> v + amount))" using Cons.prems by auto
  from Cons.IH[OF this]
  have "refund_cost (m(res \<mapsto> v + amount)) c =
          Inr (\<lambda>k. map_option (\<lambda>v. v + cost_total c k) ((m(res \<mapsto> v + amount)) k))" .
  moreover have "refund_cost m (p # c) = refund_cost (m(res \<mapsto> v + amount)) c"
    using v p by simp
  moreover have "(\<lambda>k. map_option (\<lambda>v. v + cost_total c k) ((m(res \<mapsto> v + amount)) k))
        = (\<lambda>k. map_option (\<lambda>v. v + cost_total (p # c) k) (m k))"
    using v p by (auto simp: fun_eq_iff cost_total_def)
  ultimately show ?case by simp
qed

lemma refund_after_deduct:
  assumes "deduct_cost m c = Inr m1"
  shows "refund_cost m1 c = Inr m"
proof -
  from deduct_cost_Inr[OF assms] have k: "fst ` set c \<subseteq> dom m"
    and m1: "m1 = (\<lambda>k. map_option (\<lambda>v. v - cost_total c k) (m k))" by auto
  have "fst ` set c \<subseteq> dom m1" using k unfolding m1 by (auto simp: dom_def)
  from refund_cost_total[OF this] show ?thesis
    unfolding m1 by (simp add: option.map_comp comp_def option.map_ident)
qed

lemma deduct_cost_defined:
  "fst ` set c \<subseteq> dom m \<Longrightarrow> \<exists>m1. deduct_cost m c = Inr m1"
proof (induction c arbitrary: m)
  case Nil
  then show ?case by simp
next
  case (Cons p c)
  obtain res amount where p: "p = (res, amount)" by (cases p)
  from Cons.prems p obtain v where v: "m res = Some v" by auto
  have "fst ` set c \<subseteq> dom (m(res \<mapsto> v - amount))" using Cons.prems by auto
  from Cons.IH[OF this] obtain m1 where "deduct_cost (m(res \<mapsto> v - amount)) c = Inr m1" ..
  moreover have "deduct_cost m (p # c) = deduct_cost (m(res \<mapsto> v - amount)) c"
    using v p by simp
  ultimately show ?case by simp
qed

lemma can_afford_keys:
  assumes "can_afford m c" and "\<forall>p \<in> set c. 0 < snd p"
  shows "fst ` set c \<subseteq> dom m"
proof
  fix k assume "k \<in> fst ` set c"
  then obtain a where ka: "(k, a) \<in> set c" by auto
  with assms have "resources_get m k \<ge> a" "0 < a"
    by (auto simp: can_afford_def list_all_iff)
  then show "k \<in> dom m" by (auto simp: resources_get_def split: option.splits)
qed

lemma building_info_positive:
  "building_info bt = Some c \<Longrightarrow> \<forall>p \<in> set c. 0 < snd p"
  by (cases bt)
     (auto simp: building_info_def DRILL_COST_def CONVEYOR_COST_def TURRET_COST_def WALL_COST_def
        COALGENERATOR_COST_def POWERPOLE_COST_def BATTERY_COST_def RECONSTRUCTOR_COST_def)

lemma resources_update_power_lists_add [simp]:
  "resources (update_power_lists_add g a) = resources g"
  by (simp add: update_power_lists_add_def Let_def)

lemma resources_update_power_lists_remove [simp]:
  "resources (update_power_lists_remove g a) = resources g"
  by (simp add: update_power_lists_remove_def Let_def)

lemma resources_remove_structure_from_game [simp]:
  "resources (remove_structure_from_game g a) = resources g"
  by (simp add: remove_structure_from_game_def Let_def new_object_def split: option.splits)

lemma resources_setup_on_patch [simp]: "resources (setup_on_patch g a) = resources g"
  by (simp add: setup_on_patch_def Let_def split: option.splits)

lemma resources_add_structure_to_game [simp]:
  "resources (snd (add_structure_to_game g a)) = resources g"
  by (simp add: add_structure_to_game_def Let_def split: option.splits)

lemma aps_client: "network_mode g = Client \<Longrightarrow> action_place_structure g pid b_type gx gy orient r = Inr (False, g)"
  by (simp add: action_place_structure_def)

lemma aps_noplayer: "map_of (players g) pid = None \<Longrightarrow> action_place_structure g pid b_type gx gy orient r = Inr (False, g)"
  by (simp add: action_place_structure_def)

lemma aps_noinfo: "building_info b_type = None \<Longrightarrow> action_place_structure g pid b_type gx gy orient r = Inr (False, g)"
  by (simp add: action_place_structure_def split: option.splits)

lemma aps_oob: "\<not> in_bounds g gx gy \<Longrightarrow> action_place_structure g pid b_type gx gy orient r = Inr (False, g)"
  by (simp add: action_place_structure_def split: option.splits)

lemma aps_afford: "building_info b_type = Some c \<Longrightarrow> \<not> can_afford (resources g) c \<Longrightarrow> action_place_structure g pid b_type gx gy orient r = Inr (False, g)"
  by (simp add: action_place_structure_def split: option.splits)

lemma aps_radius: "map_of (players g) pid = Some p \<Longrightarrow> \<not> in_build_radius p gx gy \<Longrightarrow> action_place_structure g pid b_type gx gy orient r = Inr (False, g)"
  by (simp add: action_place_structure_def split: option.splits)

lemma aps_tile: "\<not> tile_legal g b_type gx gy \<Longrightarrow> action_place_structure g pid b_type gx gy orient r = Inr (False, g)"
  by (simp add: action_place_structure_def split: option.splits)

lemma aps_accept:
  assumes "network_mode g \<noteq> Client" "map_of (players g) pid = Some p"
    "building_info b_type = Some c" "in_bounds g gx gy"
     "can_afford (resources g) c" "in_build_radius p gx gy" "tile_legal g b_type gx gy"
     "deduct_cost (resources g) c = Inr res1"
  shows "action_place_structure g pid b_type gx gy orient r =
    (let na = new_object (g\<lparr>resources := res1\<rparr>) (instantiate b_type gx gy orient r);
         ad = add_structure_to_game (snd na) (fst na)
     in if \<not> fst ad
        then (case refund_cost (resources (snd ad)) c of
                                  Inl e \<Rightarrow> Inl e
                                | Inr res2 \<Rightarrow> Inr (False, (snd ad)\<lparr>resources := res2\<rparr>))
        else Inr (True, snd ad))"
proof -
  have nn: "b_type \<noteq> BUILDING_NONE" using assms(3) by (auto simp: building_info_def)
  show ?thesis
    unfolding action_place_structure_def Let_def
    using assms nn
    by (simp add: split_beta)
qed

text \<open>
  C1.  Every placement attempt returns without an exception.  Whenever it returns false, the
  resources map is the one before the attempt; this covers the refund after a failed
  \<^verbatim>\<open>_add_structure_to_game\<close>.  An attempt out of bounds, on an unknown building type, with
  an unaffordable cost, out of the player's build radius or on an illegal tile returns false
  and leaves the whole world as it was.
\<close>

theorem place_rejected_keeps_resources:
  "(\<exists>ok g'. action_place_structure g pid b_type gx gy orient r = Inr (ok, g')
        \<and> (\<not> ok \<longrightarrow> resources g' = resources g))
   \<and> (\<not> in_bounds g gx gy \<or> building_info b_type = None
        \<or> \<not> can_afford (resources g) (cost b_type)
        \<or> (\<forall>p. map_of (players g) pid = Some p \<longrightarrow> \<not> in_build_radius p gx gy)
        \<or> \<not> tile_legal g b_type gx gy
      \<longrightarrow> action_place_structure g pid b_type gx gy orient r = Inr (False, g))"
proof (intro conjI impI)
  show "\<exists>ok g'. action_place_structure g pid b_type gx gy orient r = Inr (ok, g')
        \<and> (\<not> ok \<longrightarrow> resources g' = resources g)"
  proof (cases "\<exists>p c. network_mode g \<noteq> Client \<and> map_of (players g) pid = Some p
       \<and> building_info b_type = Some c \<and> in_bounds g gx gy \<and> can_afford (resources g) c
       \<and> in_build_radius p gx gy \<and> tile_legal g b_type gx gy")
    case False
    have "action_place_structure g pid b_type gx gy orient r = Inr (False, g)"
    proof (cases "map_of (players g) pid")
      case None
      then show ?thesis by (rule aps_noplayer)
    next
      case (Some p)
      show ?thesis
      proof (cases "building_info b_type")
        case None
        then show ?thesis by (rule aps_noinfo)
      next
        case (Some c)
        with False \<open>map_of (players g) pid = Some p\<close>
        consider "network_mode g = Client" | "\<not> in_bounds g gx gy"
          | "\<not> can_afford (resources g) c" | "\<not> in_build_radius p gx gy"
          | "\<not> tile_legal g b_type gx gy" by blast
        then show ?thesis
          using aps_client aps_oob aps_afford[OF Some] aps_radius[OF \<open>map_of (players g) pid = Some p\<close>]
            aps_tile by cases blast+
      qed
    qed
    then show ?thesis by (intro exI[of _ False] exI[of _ g]) simp
  next
    case True
    then obtain p c where h: "network_mode g \<noteq> Client" "map_of (players g) pid = Some p"
       "building_info b_type = Some c" "in_bounds g gx gy"
       "can_afford (resources g) c" "in_build_radius p gx gy" "tile_legal g b_type gx gy"
      by blast
    from can_afford_keys[OF h(5) building_info_positive[OF h(3)]]
    obtain res1 where d: "deduct_cost (resources g) c = Inr res1"
      using deduct_cost_defined by blast
    define na where "na = new_object (g\<lparr>resources := res1\<rparr>) (instantiate b_type gx gy orient r)"
    define ad where "ad = add_structure_to_game (snd na) (fst na)"
    have r1: "resources (snd ad) = res1"
      by (simp add: ad_def na_def new_object_def)
    have rf: "refund_cost (resources (snd ad)) c = Inr (resources g)"
      unfolding r1 by (rule refund_after_deduct[OF d])
    have "action_place_structure g pid b_type gx gy orient r =
            (if \<not> fst ad then Inr (False, (snd ad)\<lparr>resources := resources g\<rparr>) else Inr (True, snd ad))"
      unfolding aps_accept[OF h d] Let_def na_def[symmetric] ad_def[symmetric]
      by (simp add: rf)
    then show ?thesis by auto
  qed
next
  assume a: "\<not> in_bounds g gx gy \<or> building_info b_type = None
        \<or> \<not> can_afford (resources g) (cost b_type)
        \<or> (\<forall>p. map_of (players g) pid = Some p \<longrightarrow> \<not> in_build_radius p gx gy)
        \<or> \<not> tile_legal g b_type gx gy"
  show "action_place_structure g pid b_type gx gy orient r = Inr (False, g)"
  proof (cases "map_of (players g) pid")
    case None
    then show ?thesis by (rule aps_noplayer)
  next
    case (Some p)
    show ?thesis
    proof (cases "building_info b_type")
      case None
      then show ?thesis by (rule aps_noinfo)
    next
      case (Some c)
      then have c: "c = cost b_type" by (auto simp: building_info_def split: if_splits)
      from a Some \<open>map_of (players g) pid = Some p\<close> c
      consider "\<not> in_bounds g gx gy"
          | "\<not> can_afford (resources g) c" | "\<not> in_build_radius p gx gy"
          | "\<not> tile_legal g b_type gx gy" by auto
      then show ?thesis
        using aps_oob aps_afford[OF Some] aps_radius[OF \<open>map_of (players g) pid = Some p\<close>]
            aps_tile by cases blast+
    qed
  qed
qed

lemma example_world_drill_tile: "\<not> tile_legal example_world BUILDING_DRILL 20 9"
  by (simp add: tile_legal_def get_structure_at_def in_bounds_def example_world_def)

lemma example_world_resources:
  "resources example_world = [RES_COPPER \<mapsto> 200, RES_COAL \<mapsto> 100]"
  by (simp add: example_world_def Game_init_def STARTING_COPPER_def STARTING_COAL_def)

theorem place_rejected_keeps_resources_witness:
  "\<not> tile_legal example_world BUILDING_DRILL 20 9
   \<and> action_place_structure example_world 0 BUILDING_DRILL 20 9 1 0 = Inr (False, example_world)
   \<and> resources (snd (projr (action_place_structure example_world 0 BUILDING_DRILL 20 9 1 0)))
       = [RES_COPPER \<mapsto> 200, RES_COAL \<mapsto> 100]"
proof -
  have "action_place_structure example_world 0 BUILDING_DRILL 20 9 1 0 = Inr (False, example_world)"
    using place_rejected_keeps_resources[of example_world 0 BUILDING_DRILL 20 9 1 0]
      example_world_drill_tile by blast
  then show ?thesis using example_world_drill_tile example_world_resources by simp
qed

section \<open>Removal\<close>

lemma refund_removed_lookup:
  "refund_removed m (cost bt) k =
     (case map_of (cost bt) k of None \<Rightarrow> m k
      | Some amount \<Rightarrow> Some (resources_get m k + \<lfloor>real_of_int amount / 2\<rfloor>))"
  by (cases bt)
     (auto simp: DRILL_COST_def CONVEYOR_COST_def TURRET_COST_def WALL_COST_def
        COALGENERATOR_COST_def POWERPOLE_COST_def BATTERY_COST_def RECONSTRUCTOR_COST_def
        RES_COPPER_def RES_COAL_def py_int_def DELETE_REFUND_RATIO_def resources_get_def)

lemma structures_update_power_lists_remove [simp]:
  "structures (update_power_lists_remove g a) = structures g"
  "grid (update_power_lists_remove g a) = grid g"
  "objs (update_power_lists_remove g a) = objs g"
  "base_terrain (update_power_lists_remove g a) = base_terrain g"
  "grid_width (update_power_lists_remove g a) = grid_width g"
  "grid_height (update_power_lists_remove g a) = grid_height g"
  "next_ref (update_power_lists_remove g a) = next_ref g"
  by (simp_all add: update_power_lists_remove_def Let_def)

lemma in_bounds_cong:
  "grid_width g' = grid_width g \<Longrightarrow> grid_height g' = grid_height g \<Longrightarrow> in_bounds g' x y = in_bounds g x y"
  by (simp add: in_bounds_def)

lemma map_of_delete_self: "map_of (AList.delete k xs) k = None"
  by (simp add: AList.delete_eq map_of_eq_None_iff image_iff)

lemma remove_structure_registry:
  "map_of (structures (remove_structure_from_game g a)) (network_id (objs g a)) = None"
  by (auto simp: remove_structure_from_game_def Let_def new_object_def map_of_delete_self
      split: option.splits)

lemma remove_structure_cell:
  assumes "in_bounds g gx gy" "grid g (gx, gy) = Some a" "grid_x (objs g a) = gx" "grid_y (objs g a) = gy"
  shows "case base_terrain g (gx, gy) of
           None \<Rightarrow> grid (remove_structure_from_game g a) (gx, gy) = None
         | Some bt \<Rightarrow> if bt \<noteq> []
             then \<exists>p. grid (remove_structure_from_game g a) (gx, gy) = Some p
                     \<and> objs (remove_structure_from_game g a) p = ResourcePatch_init gx gy bt
             else grid (remove_structure_from_game g a) (gx, gy) = None"
  using assms
  by (auto simp: remove_structure_from_game_def Let_def new_object_def in_bounds_def
      split: option.splits)

lemma ars_reject_type:
  "get_structure_at g gx gy = Some a \<Longrightarrow>
   building_type (objs g a) \<in> {BUILDING_CORE, BUILDING_RESOURCE} \<Longrightarrow>
   action_remove_structure g pid gx gy = (False, g)"
  by (simp add: action_remove_structure_def split: option.splits)

lemma ars_reject_radius:
  "\<forall>p. map_of (players g) pid = Some p \<longrightarrow> \<not> in_build_radius p gx gy \<Longrightarrow>
   action_remove_structure g pid gx gy = (False, g)"
  by (simp add: action_remove_structure_def split: option.splits)

lemma ars_success:
  assumes "action_remove_structure g pid gx gy = (True, g')" "get_structure_at g gx gy = Some a"
  shows "g' = remove_structure_from_game
           (g\<lparr>resources := refund_removed (resources g) (cost (building_type (objs g a)))\<rparr>) a"
    and "in_bounds g gx gy" and "grid g (gx, gy) = Some a"
  using assms
  by (auto simp: action_remove_structure_def get_structure_at_def split: option.splits if_splits)

text \<open>
  C9.  The remove action returns false and changes nothing when the tile holds the core or
  only a resource patch, and when the target is out of the player's build radius.  When it
  succeeds on a structure whose grid coordinates are those of the cell, every entry of the
  structure's build cost adds the floor of half its amount to the resources map and no other
  resource changes, the structure's id is no longer in the registry, and the cell holds a new
  resource patch of the base terrain's kind if there is base terrain, and nothing otherwise.
\<close>

theorem remove_structure_effect:
  "((\<exists>a. get_structure_at g gx gy = Some a
          \<and> building_type (objs g a) \<in> {BUILDING_CORE, BUILDING_RESOURCE})
      \<or> (\<forall>p. map_of (players g) pid = Some p \<longrightarrow> \<not> in_build_radius p gx gy)
     \<longrightarrow> action_remove_structure g pid gx gy = (False, g))
   \<and> (action_remove_structure g pid gx gy = (True, g') \<and> get_structure_at g gx gy = Some a
        \<and> grid_x (objs g a) = gx \<and> grid_y (objs g a) = gy
     \<longrightarrow> (\<forall>k. resources g' k =
             (case map_of (cost (building_type (objs g a))) k of
                None \<Rightarrow> resources g k
              | Some amount \<Rightarrow> Some (resources_get (resources g) k + \<lfloor>real_of_int amount / 2\<rfloor>)))
         \<and> map_of (structures g') (network_id (objs g a)) = None
         \<and> (case base_terrain g (gx, gy) of
               None \<Rightarrow> grid g' (gx, gy) = None
             | Some bt \<Rightarrow>
                 if bt \<noteq> []
                 then \<exists>p. grid g' (gx, gy) = Some p \<and> objs g' p = ResourcePatch_init gx gy bt
                 else grid g' (gx, gy) = None))"
proof (intro conjI impI)
  assume "(\<exists>a. get_structure_at g gx gy = Some a
          \<and> building_type (objs g a) \<in> {BUILDING_CORE, BUILDING_RESOURCE})
      \<or> (\<forall>p. map_of (players g) pid = Some p \<longrightarrow> \<not> in_build_radius p gx gy)"
  then show "action_remove_structure g pid gx gy = (False, g)"
    using ars_reject_type ars_reject_radius by blast
next
  assume h: "action_remove_structure g pid gx gy = (True, g') \<and> get_structure_at g gx gy = Some a
        \<and> grid_x (objs g a) = gx \<and> grid_y (objs g a) = gy"
  define g1 where "g1 = g\<lparr>resources := refund_removed (resources g) (cost (building_type (objs g a)))\<rparr>"
  from h have g': "g' = remove_structure_from_game g1 a"
    and ib: "in_bounds g gx gy" and gr: "grid g (gx, gy) = Some a"
    unfolding g1_def by (auto dest: ars_success)
  have o1: "objs g1 = objs g" "base_terrain g1 = base_terrain g" by (simp_all add: g1_def)
  show "\<forall>k. resources g' k =
             (case map_of (cost (building_type (objs g a))) k of
                None \<Rightarrow> resources g k
              | Some amount \<Rightarrow> Some (resources_get (resources g) k + \<lfloor>real_of_int amount / 2\<rfloor>))"
    unfolding g' by (simp add: g1_def refund_removed_lookup)
  show "map_of (structures g') (network_id (objs g a)) = None"
    unfolding g' using remove_structure_registry[of g1 a] by (simp add: o1)
  have "in_bounds g1 gx gy" "grid g1 (gx, gy) = Some a" "grid_x (objs g1 a) = gx" "grid_y (objs g1 a) = gy"
    using ib gr h by (simp_all add: g1_def in_bounds_def)
  from remove_structure_cell[OF this]
  show "case base_terrain g (gx, gy) of
               None \<Rightarrow> grid g' (gx, gy) = None
             | Some bt \<Rightarrow>
                 if bt \<noteq> []
                 then \<exists>p. grid g' (gx, gy) = Some p \<and> objs g' p = ResourcePatch_init gx gy bt
                 else grid g' (gx, gy) = None"
    unfolding g' by (simp add: o1)
qed

lemma example_drill_world_facts:
  "get_structure_at example_drill_world 18 12 = Some 3"
  "get_structure_at example_drill_world 20 15 = Some 0"
  "building_type (objs example_drill_world 3) = BUILDING_DRILL"
  "building_type (objs example_drill_world 0) = BUILDING_CORE"
  "grid_x (objs example_drill_world 3) = 18"
  "grid_y (objs example_drill_world 3) = 12"
  "network_id (objs example_drill_world 3) = ''18_12_1''"
  "base_terrain example_drill_world (18, 12) = Some ''copper''"
  "resources example_drill_world = [''copper'' \<mapsto> 185, ''coal'' \<mapsto> 100]"
  "network_mode example_drill_world = Sp"
  "map_of (players example_drill_world) 0 = Some (Player_init 656 432 0 ''Player0'' 0)"
  by (simp_all add: example_drill_world_def example_world_def get_structure_at_def in_bounds_def
      Drill_init_def Drill_update_stats_def Structure_init_def Core_init_def Game_init_def
      str_int_def str_nat.simps digit_char_def Let_def RES_COPPER_def RES_COAL_def)

lemma example_player_radius: "in_build_radius (Player_init 656 432 0 ''Player0'' 0) 18 12"
  by (simp add: in_build_radius_def Player_init_def grid_to_world_center_def distance_sq_def
      PLAYER_BUILD_RADIUS_def TILE_SIZE_def Let_def)

lemma example_drill_world_remove:
  "fst (action_remove_structure example_drill_world 0 18 12)"
  by (simp add: action_remove_structure_def example_drill_world_facts example_player_radius)

theorem remove_structure_effect_witness:
  "action_remove_structure example_drill_world 0 20 15 = (False, example_drill_world)
   \<and> fst (action_remove_structure example_drill_world 0 18 12)
   \<and> resources (snd (action_remove_structure example_drill_world 0 18 12)) ''copper'' = Some 192
   \<and> resources (snd (action_remove_structure example_drill_world 0 18 12)) ''coal'' = Some 100
   \<and> map_of (structures (snd (action_remove_structure example_drill_world 0 18 12))) ''18_12_1'' = None
   \<and> (\<exists>p. grid (snd (action_remove_structure example_drill_world 0 18 12)) (18, 12) = Some p
          \<and> objs (snd (action_remove_structure example_drill_world 0 18 12)) p
              = ResourcePatch_init 18 12 ''copper'')"
proof -
  have s: "action_remove_structure example_drill_world 0 18 12
             = (True, snd (action_remove_structure example_drill_world 0 18 12))"
    using example_drill_world_remove by (simp add: prod_eq_iff)
  have c: "\<exists>a. get_structure_at example_drill_world 20 15 = Some a
          \<and> building_type (objs example_drill_world a) \<in> {BUILDING_CORE, BUILDING_RESOURCE}"
    by (simp add: example_drill_world_facts)
  from remove_structure_effect[of example_drill_world 20 15 0] c
  have r: "action_remove_structure example_drill_world 0 20 15 = (False, example_drill_world)"
    by blast
  from remove_structure_effect[of example_drill_world 18 12 0
      "snd (action_remove_structure example_drill_world 0 18 12)" 3] s
  have e: "(\<forall>k. resources (snd (action_remove_structure example_drill_world 0 18 12)) k =
             (case map_of (cost BUILDING_DRILL) k of
                None \<Rightarrow> resources example_drill_world k
              | Some amount \<Rightarrow> Some (resources_get (resources example_drill_world) k + \<lfloor>real_of_int amount / 2\<rfloor>)))
         \<and> map_of (structures (snd (action_remove_structure example_drill_world 0 18 12))) ''18_12_1'' = None
         \<and> (\<exists>p. grid (snd (action_remove_structure example_drill_world 0 18 12)) (18, 12) = Some p
          \<and> objs (snd (action_remove_structure example_drill_world 0 18 12)) p
              = ResourcePatch_init 18 12 ''copper'')"
    by (simp add: example_drill_world_facts)
  from e have "resources (snd (action_remove_structure example_drill_world 0 18 12)) ''copper'' = Some 192"
    "resources (snd (action_remove_structure example_drill_world 0 18 12)) ''coal'' = Some 100"
    by (simp_all add: example_drill_world_facts DRILL_COST_def RES_COPPER_def resources_get_def)
  with r e example_drill_world_remove show ?thesis by blast
qed

section \<open>Conveyors\<close>

lemma try_accept_item_progress:
  assumes "0 < item_count (objs g a)"
  shows "item_progress (objs (snd (try_accept_item g t it)) a) = item_progress (objs g a)"
  using assms by (auto simp: try_accept_item_def Let_def split: option.splits)

lemma try_push_item_progress:
  assumes "try_push_item g a = Inr (pushed, g2)" "0 < item_count (objs g a)"
  shows "item_progress (objs g2 a) = item_progress (objs g a)"
proof -
  from assms(1) have "g2 = g \<or> (\<exists>t it. g2 = snd (try_accept_item g t it))"
    by (auto simp: try_push_item_def split: option.splits if_splits sum.splits)
       (metis snd_conv)
  then show ?thesis using try_accept_item_progress[OF assms(2)] by auto
qed

text \<open>
  C5.  One call of \<^verbatim>\<open>Conveyor.update\<close> on a conveyor that holds at least one item and
  returns without an exception.  If the push to the facing neighbour was tried and failed, the
  progress is exactly 1.0; as long as no push succeeds, a progress of at most 1.0 stays at
  most 1.0.  If the push succeeded, the progress afterwards is not below 0, and with items
  still queued it is the excess over 1.0 of the advanced progress.
\<close>

theorem conveyor_progress_bounds:
  assumes "Conveyor_update g a = Inr (pushed, g')" and "0 < item_count (objs g a)"
  shows "(pushed = Some False \<longrightarrow> item_progress (objs g' a) = 1)
       \<and> (pushed \<noteq> Some True \<and> item_progress (objs g a) \<le> 1 \<longrightarrow> item_progress (objs g' a) \<le> 1)
       \<and> (pushed = Some True \<longrightarrow> 0 \<le> item_progress (objs g' a))
       \<and> (pushed = Some True \<and> 0 < item_count (objs g' a) \<longrightarrow>
            item_progress (objs g' a) =
              max 0 (item_progress (objs g a) + dt g / transfer_time (objs g a) - 1))"
proof (cases "transfer_time (objs g a) > 0")
  case False
  with assms show ?thesis by (auto simp: Conveyor_update_def Let_def)
next
  case True
  define s where "s = objs g a"
  define g1 where "g1 = g\<lparr>objs := (objs g)(a := s\<lparr>item_progress := item_progress s + dt g / transfer_time s\<rparr>)\<rparr>"
  have p1: "item_progress (objs g1 a) = item_progress s + dt g / transfer_time s"
    and c1: "0 < item_count (objs g1 a)"
    using assms(2) by (simp_all add: g1_def s_def)
  show ?thesis
  proof (cases "item_progress (objs g1 a) \<ge> 1")
    case False
    with assms True have "pushed = None" "g' = g1"
      unfolding Conveyor_update_def Let_def s_def[symmetric] g1_def[symmetric]
      by (auto simp: s_def)
    with False show ?thesis by simp
  next
    case ge: True
    from assms True ge obtain ok g2 where tp: "try_push_item g1 a = Inr (ok, g2)"
      unfolding Conveyor_update_def Let_def s_def[symmetric] g1_def[symmetric]
      by (auto simp: s_def split: sum.splits)
    note p2 = try_push_item_progress[OF tp c1]
    show ?thesis
    proof (cases ok)
      case False
      with assms True ge tp have "pushed = Some False"
        "g' = g2\<lparr>objs := (objs g2)(a := (objs g2 a)\<lparr>item_progress := 1\<rparr>)\<rparr>"
        unfolding Conveyor_update_def Let_def s_def[symmetric] g1_def[symmetric]
        by (auto simp: s_def)
      then show ?thesis by simp
    next
      case ok: True
      define s3 where "s3 = (objs g2 a)\<lparr>item_count := item_count (objs g2 a) - 1\<rparr>"
      from assms True ge tp ok have r: "pushed = Some True"
        "g' = g2\<lparr>objs := (objs g2)(a :=
                                     if item_count s3 > 0
                                     then s3\<lparr>item_progress := max 0 (item_progress s3 - 1)\<rparr>
                                     else s3\<lparr>item_progress := 0, item_type := None\<rparr>)\<rparr>"
        unfolding Conveyor_update_def Let_def s_def[symmetric] g1_def[symmetric] s3_def
        by (auto simp: s_def)
      have "item_progress s3 = item_progress s + dt g / transfer_time s"
        using p2 p1 by (simp add: s3_def)
      then show ?thesis using r by (auto simp: s_def)
    qed
  qed
qed

lemmas conveyor_world_defs = example_conveyor_world_def example_world_def Game_init_def
  Conveyor_init_def Conveyor_update_stats_def Core_init_def Structure_init_def CONVEYOR_STATS_def
  RES_COPPER_def RES_COAL_def STARTING_COPPER_def STARTING_COAL_def

lemma example_conveyor_4:
  "item_count (objs example_conveyor_world 4) = 1"
  "transfer_time (objs example_conveyor_world 4) = 8 / 10"
  "item_progress (objs example_conveyor_world 4) = 995 / 1000"
  "item_type (objs example_conveyor_world 4) = Some ''copper''"
  "orientation (objs example_conveyor_world 4) = 1"
  "grid_x (objs example_conveyor_world 4) = 10" "grid_y (objs example_conveyor_world 4) = 5"
  "dt example_conveyor_world = 1 / 60"
  by (simp_all add: conveyor_world_defs Let_def)

lemma example_conveyor_3:
  "item_count (objs example_conveyor_world 3) = 2"
  "transfer_time (objs example_conveyor_world 3) = 55 / 100"
  "item_progress (objs example_conveyor_world 3) = 99 / 100"
  "item_type (objs example_conveyor_world 3) = Some ''copper''"
  "orientation (objs example_conveyor_world 3) = 2"
  "grid_x (objs example_conveyor_world 3) = 20" "grid_y (objs example_conveyor_world 3) = 14"
  by (simp_all add: conveyor_world_defs Let_def)

lemma example_conveyor_grid:
  "grid example_conveyor_world (11, 5) = None"
  "grid example_conveyor_world (20, 15) = Some 0"
  "grid_width example_conveyor_world = 40" "grid_height example_conveyor_world = 19"
  "resources example_conveyor_world ''copper'' = Some 200"
  by (simp_all add: conveyor_world_defs)

lemma example_conveyor_blocked:
  "\<exists>g'. Conveyor_update example_conveyor_world 4 = Inr (Some False, g')"
  by (simp add: Conveyor_update_def example_conveyor_4 Let_def try_push_item_def get_neighbor_def
      py_nth_def ORIENTATIONS_def example_conveyor_grid get_structure_at_def in_bounds_def)

lemma example_core: "building_type (objs example_conveyor_world 0) = BUILDING_CORE"
  by (simp add: conveyor_world_defs)

lemma example_conveyor_pushed:
  "\<exists>g'. Conveyor_update example_conveyor_world 3 = Inr (Some True, g') \<and> item_count (objs g' 3) = 1"
  by (simp add: Conveyor_update_def example_conveyor_3 example_conveyor_4(8) Let_def try_push_item_def get_neighbor_def
      py_nth_def ORIENTATIONS_def example_conveyor_grid get_structure_at_def in_bounds_def try_accept_item_def example_core)

theorem conveyor_progress_bounds_witness:
  "Conveyor_update example_conveyor_world 4
     = Inr (Some False, snd (projr (Conveyor_update example_conveyor_world 4)))
   \<and> 0 < item_count (objs example_conveyor_world 4)
   \<and> item_progress (objs (snd (projr (Conveyor_update example_conveyor_world 4))) 4) = 1
   \<and> Conveyor_update example_conveyor_world 3
     = Inr (Some True, snd (projr (Conveyor_update example_conveyor_world 3)))
   \<and> 0 < item_count (objs example_conveyor_world 3)
   \<and> 0 < item_count (objs (snd (projr (Conveyor_update example_conveyor_world 3))) 3)
   \<and> item_progress (objs (snd (projr (Conveyor_update example_conveyor_world 3))) 3) = 67 / 3300"
proof -
  from example_conveyor_blocked obtain g4
    where b: "Conveyor_update example_conveyor_world 4 = Inr (Some False, g4)" ..
  from example_conveyor_pushed obtain g3
    where p: "Conveyor_update example_conveyor_world 3 = Inr (Some True, g3)"
      and c: "item_count (objs g3 3) = 1" by blast
  have c4: "0 < item_count (objs example_conveyor_world 4)"
    and c3: "0 < item_count (objs example_conveyor_world 3)"
    by (simp_all add: example_conveyor_4 example_conveyor_3)
  from conveyor_progress_bounds[OF b c4] have "item_progress (objs g4 4) = 1" by simp
  moreover from conveyor_progress_bounds[OF p c3] c
  have "item_progress (objs g3 3) = 67 / 3300"
    by (simp add: example_conveyor_3 example_conveyor_4(8))
  ultimately show ?thesis using b p c c3 c4 by simp
qed
section \<open>Power links stay within the radius\<close>


lemma links_kept_refl: "links_kept h h"
  by (simp add: links_kept_def)

lemma links_kept_trans: "links_kept h h1 \<Longrightarrow> links_kept h1 h2 \<Longrightarrow> links_kept h h2"
  by (simp add: links_kept_def)

lemma links_same_refl: "links_same h h"
  by (simp add: links_same_def)

lemma links_same_trans: "links_same h h1 \<Longrightarrow> links_same h1 h2 \<Longrightarrow> links_same h h2"
  by (simp add: links_same_def)

lemma links_same_kept: "links_same h h' \<Longrightarrow> links_kept h h'"
  by (simp add: links_same_def links_kept_def links_ok_def center_x_def center_y_def)

lemma links_same_fold:
  assumes "\<And>x h. links_same h (f x h)"
  shows "links_same h (fold f xs h)"
proof (induction xs arbitrary: h)
  case Nil
  show ?case by (simp add: links_same_refl)
next
  case (Cons x xs)
  have "links_same h (f x h)" by (rule assms)
  then show ?case using Cons[of "f x h"] by (auto intro: links_same_trans)
qed

lemma distance_sq_sym: "distance_sq x1 y1 x2 y2 = distance_sq x2 y2 x1 y1"
  by (simp add: distance_sq_def Let_def algebra_simps)

lemma link_nodes_kept:
  assumes "is_valid_neighbor h cur nb"
  shows "links_kept h (link_nodes h cur nb)"
proof -
  have d: "distance_sq (center_x (h cur)) (center_y (h cur)) (center_x (h nb)) (center_y (h nb))
            \<le> POWER_RADIUS ^ 2"
    using assms by (simp add: is_valid_neighbor_def)
  then have d': "distance_sq (center_x (h nb)) (center_y (h nb)) (center_x (h cur)) (center_y (h cur))
            \<le> POWER_RADIUS ^ 2"
    by (simp add: distance_sq_sym)
  show ?thesis
    using d d'
    by (auto simp: links_kept_def link_nodes_def Let_def links_ok_def center_x_def center_y_def)
qed

lemma scan_neighbors_kept:
  "links_kept h (snd (scan_neighbors G cur offs visited new h))"
proof (induction offs arbitrary: new h)
  case Nil
  show ?case by (simp add: links_kept_refl)
next
  case (Cons p offs)
  obtain dx dy where p: "p = (dx, dy)" by (cases p)
  show ?case
  proof (cases "get_structure_at G (grid_x (h cur) + dx) (grid_y (h cur) + dy)")
    case None
    then show ?thesis using Cons p by simp
  next
    case (Some nb)
    show ?thesis
    proof (cases "nb \<notin> set visited \<and> nb \<notin> set new \<and> is_valid_neighbor h cur nb")
      case True
      then have "links_kept h (link_nodes h cur nb)" by (simp add: link_nodes_kept)
      moreover have "links_kept (link_nodes h cur nb)
           (snd (scan_neighbors G cur offs visited (new @ [nb]) (link_nodes h cur nb)))"
        by (rule Cons.IH)
      ultimately show ?thesis using True Some p by (auto intro: links_kept_trans)
    next
      case False
      then show ?thesis using Cons.IH Some p by auto
    qed
  qed
qed

lemma on_grid_kept: "links_kept h (h(cur := (h cur)\<lparr>is_on_grid := True\<rparr>))"
  by (simp add: links_kept_def links_ok_def center_x_def center_y_def)

lemma bfs_kept: "links_kept h (snd (bfs G queue visited net h))"
proof (induction G queue visited net h rule: bfs.induct)
  case (1 G visited net h)
  show ?case by (simp add: links_kept_refl)
next
  case (2 G cur depth queue visited net h)
  define net1 where "net1 = (if cur \<in> set net then net else net @ [cur])"
  define h1 where "h1 = h(cur := (h cur)\<lparr>is_on_grid := True\<rparr>)"
  have k1: "links_kept h h1" unfolding h1_def by (rule on_grid_kept)
  show ?case
  proof (cases "depth \<ge> POWER_SEARCH_DEPTH_LIMIT")
    case True
    from "2.IH"(1)[OF net1_def h1_def True] k1 True
    show ?thesis
      by (simp add: Let_def net1_def[symmetric] h1_def[symmetric]) (rule links_kept_trans)
  next
    case False
    have k2: "links_kept h1 (snd (scan_neighbors G cur neighbor_offsets visited [] h1))"
      by (rule scan_neighbors_kept)
    from "2.IH"(2)[OF net1_def h1_def False] k1 k2 False
    show ?thesis
      by (simp add: Let_def net1_def[symmetric] h1_def[symmetric])
         (blast intro: links_kept_trans)
  qed
qed

lemma discover_networks_kept:
  "links_kept h (snd (discover_networks G seeds processed nets h))"
proof (induction seeds arbitrary: processed nets h)
  case Nil
  show ?case by (simp add: links_kept_refl)
next
  case (Cons s seeds)
  show ?case
  proof (cases "s \<in> set processed")
    case True
    then show ?thesis using Cons.IH by simp
  next
    case False
    obtain net h1 where b: "bfs G [(s, 0)] [s] [] h = (net, h1)" by (cases "bfs G [(s, 0)] [s] [] h")
    have "links_kept h h1" using bfs_kept[of h G "[(s, 0)]" "[s]" "[]"] b by simp
    then show ?thesis using False b Cons.IH[where h=h1] 
      by (auto intro: links_kept_trans)
  qed
qed


lemma power_consumers_on_same: "links_same h (power_consumers_on h cs)"
  unfolding power_consumers_on_def
  by (rule links_same_fold) (auto simp: links_same_def)

lemma power_consumers_off_same: "links_same h (power_consumers_off h cs)"
  unfolding power_consumers_off_def
  by (rule links_same_fold) (auto simp: links_same_def)

lemma apply_discharge_same: "links_same h (apply_discharge h bs t f)"
  unfolding apply_discharge_def
  by (rule links_same_fold) (auto simp: links_same_def Let_def)

lemma apply_charge_same: "links_same h (apply_charge h bs t f)"
  unfolding apply_charge_def
  by (rule links_same_fold) (auto simp: links_same_def Let_def)

lemma settle_network_same: "links_same h (settle_network G h net)"
proof -
  define h1 where "h1 = (if is_power_sufficient G h net
                then power_consumers_on h (consumers_in_this_network G h net)
                else power_consumers_off h (consumers_in_this_network G h net))"
  define h2 where "h2 = (if actual_discharge_amount G h net > EPS
                   \<and> total_available_discharge_amount h net (dt G) > EPS
                then apply_discharge h1 (batteries_in_network h net) (dt G)
                       (actual_discharge_amount G h net / total_available_discharge_amount h net (dt G))
                else h1)"
  define h3 where "h3 = (if actual_charge_amount G h net > EPS
                   \<and> total_available_charge_room h net (dt G) > EPS
         then apply_charge h2 (batteries_in_network h net) (dt G)
                (actual_charge_amount G h net / total_available_charge_room h net (dt G))
         else h2)"
  have "links_same h h1"
    unfolding h1_def by (simp add: power_consumers_on_same power_consumers_off_same)
  moreover have "links_same h1 h2"
    unfolding h2_def by (simp add: apply_discharge_same links_same_refl)
  moreover have "links_same h2 h3"
    unfolding h3_def by (simp add: apply_charge_same links_same_refl)
  ultimately have "links_same h h3" by (blast intro: links_same_trans)
  moreover have "settle_network G h net = h3"
    unfolding settle_network_def Let_def h3_def h2_def h1_def ..
  ultimately show ?thesis by simp
qed

lemma settle_networks_same: "links_same h (settle_networks G nets h)"
  unfolding settle_networks_def
  by (rule links_same_fold) (rule settle_network_same)

lemma reset_node_fields:
  "connected_nodes_coords (reset_node s) = []"
  "grid_x (reset_node s) = grid_x s" "grid_y (reset_node s) = grid_y s"
  by (simp_all add: reset_node_def Let_def)

lemma reset_nodes_links_gen:
  "n \<in> set ns \<or> connected_nodes_coords (h n) = [] \<Longrightarrow>
   connected_nodes_coords (fold (\<lambda>n h. h(n := reset_node (h n))) ns h n) = []"
proof (induction ns arbitrary: h)
  case Nil
  then show ?case by simp
next
  case (Cons a ns)
  define h' where "h' = h(a := reset_node (h a))"
  have "n \<in> set ns \<or> connected_nodes_coords (h' n) = []"
    using Cons.prems by (auto simp: h'_def reset_node_fields)
  then have "connected_nodes_coords (fold (\<lambda>n h. h(n := reset_node (h n))) ns h' n) = []"
    by (rule Cons.IH)
  then show ?case by (simp only: h'_def fold_simps comp_apply)
qed

lemma reset_nodes_links:
  "n \<in> set ns \<Longrightarrow> connected_nodes_coords (fold (\<lambda>n h. h(n := reset_node (h n))) ns h n) = []"
  by (simp add: reset_nodes_links_gen)

lemma reset_consumers_same:
  "links_same h (fold (\<lambda>c h. h(c := reset_consumer (h c))) cs h)"
  by (rule links_same_fold) (auto simp: links_same_def reset_consumer_def)

lemma reset_nodes_pos:
  "grid_x (fold (\<lambda>n h. h(n := reset_node (h n))) ns h m) = grid_x (h m)
   \<and> grid_y (fold (\<lambda>n h. h(n := reset_node (h n))) ns h m) = grid_y (h m)"
  by (induction ns arbitrary: h) (simp_all add: reset_node_fields)

lemma reset_power_status_links:
  "n \<in> set (power_nodes G) \<Longrightarrow> links_ok (reset_power_status G) n"
  using reset_consumers_same[of "fold (\<lambda>n h. h(n := reset_node (h n))) (power_nodes G) (objs G)"
      "power_consumers G"] reset_nodes_links[of n "power_nodes G" "objs G"]
  by (simp add: reset_power_status_def links_same_def links_ok_def)

lemma reset_power_status_pos:
  "grid_x (reset_power_status G n) = grid_x (objs G n)
   \<and> grid_y (reset_power_status G n) = grid_y (objs G n)"
  using reset_consumers_same[of "fold (\<lambda>n h. h(n := reset_node (h n))) (power_nodes G) (objs G)"
      "power_consumers G"] reset_nodes_pos[of "power_nodes G" "objs G" n]
  by (simp add: reset_power_status_def links_same_def)

lemma update_power_grid_links:
  assumes "network_mode G \<noteq> Client" "n \<in> set (power_nodes G)"
  shows "links_ok (objs (update_power_grid G)) n"
    and "grid_x (objs (update_power_grid G) m) = grid_x (objs G m)"
    and "grid_y (objs (update_power_grid G) m) = grid_y (objs G m)"
proof -
  define h0 where "h0 = reset_power_status G"
  define h1 where "h1 = snd (discovered G)"
  define h2 where "h2 = settle_networks G (fst (discovered G)) h1"
  have u: "objs (update_power_grid G) = h2"
    using assms(1) by (simp add: update_power_grid_def h2_def h1_def)
  have k1: "links_kept h0 h1"
    unfolding h1_def discovered_def Let_def h0_def by (rule discover_networks_kept)
  have k2: "links_kept h1 h2"
    unfolding h2_def by (rule links_same_kept[OF settle_networks_same])
  have k: "links_kept h0 h2" using k1 k2 by (rule links_kept_trans)
  have "links_ok h0 n" unfolding h0_def using assms(2) by (rule reset_power_status_links)
  with k show "links_ok (objs (update_power_grid G)) n" by (simp add: u links_kept_def)
  from k reset_power_status_pos[of G m]
  show "grid_x (objs (update_power_grid G) m) = grid_x (objs G m)"
    and "grid_y (objs (update_power_grid G) m) = grid_y (objs G m)"
    by (simp_all add: u links_kept_def h0_def)
qed

text \<open>
  C6.  After \<^verbatim>\<open>update_power_grid\<close> has run on the authoritative side, two nodes of the
  power-node list whose centres are further apart than \<^verbatim>\<open>POWER_RADIUS\<close> (Euclidean distance)
  do not name each other: the list of connected-neighbour coordinates of either does not
  contain the centre of the other.
\<close>

theorem power_links_within_radius:
  assumes "network_mode G \<noteq> Client"
    and "a \<in> set (power_nodes G)" and "b \<in> set (power_nodes G)"
    and "sqrt (distance_sq (center_x (objs G a)) (center_y (objs G a))
                           (center_x (objs G b)) (center_y (objs G b))) > POWER_RADIUS"
  shows "(center_x (objs G b), center_y (objs G b))
            \<notin> set (connected_nodes_coords (objs (update_power_grid G) a))
       \<and> (center_x (objs G a), center_y (objs G a))
            \<notin> set (connected_nodes_coords (objs (update_power_grid G) b))"
proof -
  let ?h = "objs (update_power_grid G)"
  have R: "0 \<le> POWER_RADIUS" by (simp add: POWER_RADIUS_def TILE_SIZE_def)
  have far: "distance_sq (center_x (objs G a)) (center_y (objs G a))
                           (center_x (objs G b)) (center_y (objs G b)) > POWER_RADIUS ^ 2"
    using assms(4) R by (metis real_sqrt_less_iff real_sqrt_abs abs_of_nonneg)
  have ca: "center_x (?h a) = center_x (objs G a)" "center_y (?h a) = center_y (objs G a)"
    and cb: "center_x (?h b) = center_x (objs G b)" "center_y (?h b) = center_y (objs G b)"
    using update_power_grid_links(2,3)[OF assms(1,2)]
    by (simp_all add: center_x_def center_y_def)
  have la: "links_ok ?h a" and lb: "links_ok ?h b"
    using update_power_grid_links(1)[OF assms(1)] assms(2,3) by auto
  have "(center_x (objs G b), center_y (objs G b)) \<notin> set (connected_nodes_coords (?h a))"
  proof
    assume "(center_x (objs G b), center_y (objs G b)) \<in> set (connected_nodes_coords (?h a))"
    with la have "distance_sq (center_x (?h a)) (center_y (?h a))
                    (center_x (objs G b)) (center_y (objs G b)) \<le> POWER_RADIUS ^ 2"
      by (auto simp: links_ok_def list_all_iff)
    with far show False by (simp add: ca)
  qed
  moreover have "(center_x (objs G a), center_y (objs G a)) \<notin> set (connected_nodes_coords (?h b))"
  proof
    assume "(center_x (objs G a), center_y (objs G a)) \<in> set (connected_nodes_coords (?h b))"
    with lb have "distance_sq (center_x (?h b)) (center_y (?h b))
                    (center_x (objs G a)) (center_y (objs G a)) \<le> POWER_RADIUS ^ 2"
      by (auto simp: links_ok_def list_all_iff)
    with far show False by (simp add: cb distance_sq_sym[of "center_x (objs G b)"])
  qed
  ultimately show ?thesis by simp
qed


text \<open>Two generators of the example power world, eight tiles (256 pixels) apart.\<close>

lemma example_power_world_nodes:
  "network_mode example_power_world = Sp"
  "power_nodes example_power_world = [3, 4]"
  "power_consumers example_power_world = [5, 6, 7, 8]"
  "grid_x (objs example_power_world 3) = 14" "grid_y (objs example_power_world 3) = 10"
  "grid_x (objs example_power_world 4) = 6" "grid_y (objs example_power_world 4) = 10"
  by (simp_all add: example_power_world_def example_world_def Game_init_def
        CoalGenerator_init_def Structure_init_def)

lemma example_power_world_far:
  "sqrt (distance_sq (center_x (objs example_power_world 3)) (center_y (objs example_power_world 3))
                     (center_x (objs example_power_world 4)) (center_y (objs example_power_world 4)))
     = 256"
proof -
  have "distance_sq (center_x (objs example_power_world 3)) (center_y (objs example_power_world 3))
                     (center_x (objs example_power_world 4)) (center_y (objs example_power_world 4))
          = 256 ^ 2"
    by (simp add: example_power_world_nodes center_x_def center_y_def grid_to_world_center_def
          grid_to_world_def distance_sq_def TILE_SIZE_def)
  then show ?thesis by (simp only: real_sqrt_abs)
qed

theorem power_links_within_radius_witness:
  "network_mode example_power_world \<noteq> Client
   \<and> 3 \<in> set (power_nodes example_power_world) \<and> 4 \<in> set (power_nodes example_power_world)
   \<and> sqrt (distance_sq (center_x (objs example_power_world 3)) (center_y (objs example_power_world 3))
                        (center_x (objs example_power_world 4)) (center_y (objs example_power_world 4)))
        > POWER_RADIUS
   \<and> (center_x (objs example_power_world 4), center_y (objs example_power_world 4))
            \<notin> set (connected_nodes_coords (objs (update_power_grid example_power_world) 3))
   \<and> (center_x (objs example_power_world 3), center_y (objs example_power_world 3))
            \<notin> set (connected_nodes_coords (objs (update_power_grid example_power_world) 4))"
  using power_links_within_radius[of example_power_world 3 4]
  by (simp add: example_power_world_nodes example_power_world_far POWER_RADIUS_def TILE_SIZE_def)


end
